theory Spec2Isabelle
  imports Main "HOL-Library.AList"
begin

section \<open>Python text\<close>

text \<open>
  A Python \<open>str\<close> is modelled by the bytes of its UTF-8 encoding, so the symbols the
  agent prints are the byte sequences of the source file. \<open>strip\<close>, \<open>upper\<close> and
  \<open>lower\<close> act on the ASCII range as Python's do; code points beyond ASCII are left as
  they are. \<open>find\<close>, \<open>rfind\<close> and slicing look for ASCII characters only, whose
  bytes never occur inside a multi-byte sequence.
\<close>

definition py_isspace :: "char \<Rightarrow> bool" where
  "py_isspace c = (let n = (of_char c :: nat) in (9 \<le> n \<and> n \<le> 13) \<or> (28 \<le> n \<and> n \<le> 32))"

definition py_lstrip :: "string \<Rightarrow> string" where
  "py_lstrip s = dropWhile py_isspace s"

definition py_rstrip :: "string \<Rightarrow> string" where
  "py_rstrip s = rev (dropWhile py_isspace (rev s))"

definition py_strip :: "string \<Rightarrow> string" where
  "py_strip s = py_rstrip (py_lstrip s)"

definition upper_char :: "char \<Rightarrow> char" where
  "upper_char c =
     (case map_of (zip ''abcdefghijklmnopqrstuvwxyz'' ''ABCDEFGHIJKLMNOPQRSTUVWXYZ'') c of
        Some u \<Rightarrow> u | None \<Rightarrow> c)"

definition lower_char :: "char \<Rightarrow> char" where
  "lower_char c =
     (case map_of (zip ''ABCDEFGHIJKLMNOPQRSTUVWXYZ'' ''abcdefghijklmnopqrstuvwxyz'') c of
        Some l \<Rightarrow> l | None \<Rightarrow> c)"

definition py_upper :: "string \<Rightarrow> string" where
  "py_upper s = map upper_char s"

definition py_lower :: "string \<Rightarrow> string" where
  "py_lower s = map lower_char s"

fun startswith :: "string \<Rightarrow> string \<Rightarrow> bool" where
  "startswith s [] = True"
| "startswith [] (p # ps) = False"
| "startswith (c # cs) (p # ps) = (c = p \<and> startswith cs ps)"

text \<open>\<open>sep.join(parts)\<close>.\<close>

fun py_join :: "string \<Rightarrow> string list \<Rightarrow> string" where
  "py_join sep [] = []"
| "py_join sep [x] = x"
| "py_join sep (x # y # ys) = x @ sep @ py_join sep (y # ys)"

text \<open>\<open>s.find(c)\<close> and \<open>s.rfind(c)\<close> for one character: the index, or \<open>-1\<close>.\<close>

fun find_char :: "char \<Rightarrow> string \<Rightarrow> int" where
  "find_char c [] = - 1"
| "find_char c (x # xs) =
     (if x = c then 0 else (let i = find_char c xs in if i < 0 then - 1 else i + 1))"

definition rfind_char :: "char \<Rightarrow> string \<Rightarrow> int" where
  "rfind_char c s =
     (let i = find_char c (rev s) in if i < 0 then - 1 else int (length s) - 1 - i)"

text \<open>
  \<open>s[i:j]\<close>: a negative index counts from the end, and both are clamped to the
  string.
\<close>

definition slice_index :: "int \<Rightarrow> int \<Rightarrow> int" where
  "slice_index n i = (if i < 0 then max (i + n) 0 else min i n)"

definition py_slice :: "string \<Rightarrow> int \<Rightarrow> int \<Rightarrow> string" where
  "py_slice s i j =
     (let a = slice_index (int (length s)) i; b = slice_index (int (length s)) j
      in take (nat (b - a)) (drop (nat a) s))"

text \<open>\<open>sub in s\<close>.\<close>

fun py_contains :: "string \<Rightarrow> string \<Rightarrow> bool" where
  "py_contains sub [] = (sub = [])"
| "py_contains sub (c # cs) = (startswith (c # cs) sub \<or> py_contains sub cs)"

text \<open>\<open>str(n)\<close> for an integer.\<close>

function show_nat :: "nat \<Rightarrow> string" where
  "show_nat n =
     (if n < 10 then [''0123456789'' ! n]
      else show_nat (n div 10) @ [''0123456789'' ! (n mod 10)])"
  by pat_completeness auto
termination
  by (relation "measure id") auto

definition show_int :: "int \<Rightarrow> string" where
  "show_int i = (if i < 0 then ''-'' @ show_nat (nat (- i)) else show_nat (nat i))"

text \<open>The symbols the agent prints, as the bytes of the source file.\<close>

definition cross_mark :: string where
  "cross_mark = [CHR 0xE2, CHR 0x9D, CHR 0x8C]"

definition check_mark :: string where
  "check_mark = [CHR 0xE2, CHR 0x9C, CHR 0x85]"

definition warning_sign :: string where
  "warning_sign = [CHR 0xE2, CHR 0x9A, CHR 0xA0, CHR 0xEF, CHR 0xB8, CHR 0x8F]"

definition light_bulb :: string where
  "light_bulb = [CHR 0xF0, CHR 0x9F, CHR 0x92, CHR 0xA1]"

definition memo :: string where
  "memo = [CHR 0xF0, CHR 0x9F, CHR 0x93, CHR 0x9D]"

definition clipboard :: string where
  "clipboard = [CHR 0xF0, CHR 0x9F, CHR 0x93, CHR 0x8B]"

definition magnifier :: string where
  "magnifier = [CHR 0xF0, CHR 0x9F, CHR 0x94, CHR 0x8D]"

definition speech_balloon :: string where
  "speech_balloon = [CHR 0xF0, CHR 0x9F, CHR 0x92, CHR 0xAC]"

definition robot :: string where
  "robot = [CHR 0xF0, CHR 0x9F, CHR 0xA4, CHR 0x96]"

definition newline :: string where
  "newline = [CHR 0x0A]"

definition apostrophe :: string where
  "apostrophe = [CHR 0x27]"

section \<open>Python values and \<open>json.loads\<close>\<close>

text \<open>
  The values \<open>json.loads\<close> returns. A float is kept as the decimal it was written as,
  \<open>Finite neg m e\<close> standing for \<open>m * 10 ^ e\<close> with the sign \<open>neg\<close>. The decoder
  follows the standard library's: the grammar of RFC 8259, with \<open>NaN\<close>, \<open>Infinity\<close>
  and \<open>-Infinity\<close>, and with control characters refused inside strings. The limits of
  the interpreter (recursion depth, digits of an integer) are not modelled.
\<close>

datatype pyfloat = Finite bool nat int | Infinity bool | NaN

datatype pyval =
    PNone
  | PBool bool
  | PInt int
  | PFloat pyfloat
  | PStr string
  | PList "pyval list"
  | PDict "(string \<times> pyval) list"

definition is_json_ws :: "char \<Rightarrow> bool" where
  "is_json_ws c = (c = CHR '' '' \<or> c = CHR 0x09 \<or> c = CHR 0x0A \<or> c = CHR 0x0D)"

definition skip_ws :: "string \<Rightarrow> string" where
  "skip_ws s = dropWhile is_json_ws s"

definition is_digit :: "char \<Rightarrow> bool" where
  "is_digit c = (c \<in> set ''0123456789'')"

definition digit_val :: "char \<Rightarrow> nat" where
  "digit_val c = of_char c - 48"

definition digits_val :: "string \<Rightarrow> nat" where
  "digits_val ds = foldl (\<lambda>n c. 10 * n + digit_val c) 0 ds"

definition hex_val :: "char \<Rightarrow> nat option" where
  "hex_val c =
     (if is_digit c then Some (of_char c - 48)
      else if c \<in> set ''abcdef'' then Some (of_char c - 87)
      else if c \<in> set ''ABCDEF'' then Some (of_char c - 55)
      else None)"

fun hex4 :: "string \<Rightarrow> (nat \<times> string) option" where
  "hex4 (a # b # c # d # rest) =
     (case (hex_val a, hex_val b, hex_val c, hex_val d) of
        (Some x, Some y, Some z, Some w) \<Rightarrow> Some (((x * 16 + y) * 16 + z) * 16 + w, rest)
      | _ \<Rightarrow> None)"
| "hex4 s = None"

definition utf8 :: "nat \<Rightarrow> string" where
  "utf8 n =
     (if n < 0x80 then [char_of n]
      else if n < 0x800 then [char_of (0xC0 + n div 0x40), char_of (0x80 + n mod 0x40)]
      else if n < 0x10000 then
        [char_of (0xE0 + n div 0x1000), char_of (0x80 + n div 0x40 mod 0x40),
         char_of (0x80 + n mod 0x40)]
      else
        [char_of (0xF0 + n div 0x40000), char_of (0x80 + n div 0x1000 mod 0x40),
         char_of (0x80 + n div 0x40 mod 0x40), char_of (0x80 + n mod 0x40)])"

definition simple_escape :: "char \<Rightarrow> char option" where
  "simple_escape c =
     map_of [(CHR 0x22, CHR 0x22), (CHR 0x5C, CHR 0x5C), (CHR ''/'', CHR ''/''),
             (CHR ''b'', CHR 0x08), (CHR ''f'', CHR 0x0C), (CHR ''n'', CHR 0x0A),
             (CHR ''r'', CHR 0x0D), (CHR ''t'', CHR 0x09)] c"

text \<open>
  The text after a backslash: the characters the escape stands for, and what follows it.
  A high surrogate followed by the escape of a low one is one code point; a surrogate on
  its own is kept.
\<close>

definition scan_escape :: "string \<Rightarrow> (string \<times> string) option" where
  "scan_escape s =
     (case s of
        [] \<Rightarrow> None
      | e # es \<Rightarrow>
          if e = CHR ''u'' then
            (case hex4 es of
               None \<Rightarrow> None
             | Some (u, rest) \<Rightarrow>
                 if 0xD800 \<le> u \<and> u \<le> 0xDBFF \<and> startswith rest [CHR 0x5C, CHR ''u''] then
                   (case hex4 (drop 2 rest) of
                      None \<Rightarrow> None
                    | Some (lo, rest') \<Rightarrow>
                        if 0xDC00 \<le> lo \<and> lo \<le> 0xDFFF then
                          Some (utf8 (0x10000 + (u - 0xD800) * 0x400 + (lo - 0xDC00)), rest')
                        else Some (utf8 u, rest))
                 else Some (utf8 u, rest))
          else map_option (\<lambda>x. ([x], es)) (simple_escape e))"

lemma hex4_shorter: "hex4 s = Some (n, r) \<Longrightarrow> length r < length s"
  by (induction s rule: hex4.induct) (auto split: option.splits)

lemma scan_escape_shorter: "scan_escape s = Some p \<Longrightarrow> length (snd p) < length s"
  by (auto simp: scan_escape_def split: list.splits if_splits option.splits
           dest!: hex4_shorter) arith

function scanstring :: "string \<Rightarrow> string \<Rightarrow> (string \<times> string) option" where
  "scanstring acc [] = None"
| "scanstring acc (c # cs) =
     (if c = CHR 0x22 then Some (rev acc, cs)
      else if c = CHR 0x5C then
        (case scan_escape cs of
           None \<Rightarrow> None
         | Some p \<Rightarrow> scanstring (rev (fst p) @ acc) (snd p))
      else if (of_char c :: nat) < 0x20 then None
      else scanstring (c # acc) cs)"
  by pat_completeness auto
termination
  by (relation "measure (\<lambda>(acc, s). length s)")
     (auto dest!: scan_escape_shorter)

lemma scanstring_shorter: "scanstring acc s = Some p \<Longrightarrow> length (snd p) < length s"
  by (induction acc s rule: scanstring.induct)
     (auto split: if_splits option.splits dest!: scan_escape_shorter)

text \<open>Numbers: \<open>-?(0|[1-9][0-9]*)(\.[0-9]+)?([eE][-+]?[0-9]+)?\<close>, the longest match.\<close>

definition int_part :: "string \<Rightarrow> (string \<times> string) option" where
  "int_part s =
     (case s of
        [] \<Rightarrow> None
      | d # ds \<Rightarrow>
          if d = CHR ''0'' then Some ([d], ds)
          else if is_digit d then Some (d # takeWhile is_digit ds, dropWhile is_digit ds)
          else None)"

definition frac_part :: "string \<Rightarrow> string \<times> string" where
  "frac_part s =
     (case s of
        dot # d # ds \<Rightarrow>
          if dot = CHR ''.'' \<and> is_digit d
          then (d # takeWhile is_digit ds, dropWhile is_digit ds)
          else ([], s)
      | _ \<Rightarrow> ([], s))"

definition exp_sign :: "string \<Rightarrow> int \<times> string" where
  "exp_sign s =
     (case s of
        c # cs \<Rightarrow>
          if c = CHR ''+'' then (1, cs) else if c = CHR ''-'' then (- 1, cs) else (1, s)
      | [] \<Rightarrow> (1, s))"

definition exp_part :: "string \<Rightarrow> int option \<times> string" where
  "exp_part s =
     (case s of
        e # r \<Rightarrow>
          if e = CHR ''e'' \<or> e = CHR ''E'' then
            (let ds = takeWhile is_digit (snd (exp_sign r)) in
             if ds = [] then (None, s)
             else (Some (fst (exp_sign r) * int (digits_val ds)),
                   dropWhile is_digit (snd (exp_sign r))))
          else (None, s)
      | [] \<Rightarrow> (None, s))"

definition match_number :: "string \<Rightarrow> (pyval \<times> string) option" where
  "match_number s =
     (let neg = startswith s ''-'';
          s1 = (if neg then tl s else s)
      in case int_part s1 of
           None \<Rightarrow> None
         | Some (ip, s2) \<Rightarrow>
             (case frac_part s2 of (fp, s3) \<Rightarrow>
               (case exp_part s3 of (ex, s4) \<Rightarrow>
                  if fp = [] \<and> ex = None
                  then Some (PInt ((if neg then - 1 else 1) * int (digits_val ip)), s4)
                  else Some (PFloat (Finite neg (digits_val (ip @ fp))
                                      ((case ex of None \<Rightarrow> 0 | Some x \<Rightarrow> x) - int (length fp))),
                             s4))))"

definition scan_atom :: "string \<Rightarrow> (pyval \<times> string) option" where
  "scan_atom s =
     (if startswith s ''null'' then Some (PNone, drop 4 s)
      else if startswith s ''true'' then Some (PBool True, drop 4 s)
      else if startswith s ''false'' then Some (PBool False, drop 5 s)
      else if startswith s ''NaN'' then Some (PFloat NaN, drop 3 s)
      else if startswith s ''Infinity'' then Some (PFloat (Infinity False), drop 8 s)
      else if startswith s ''-Infinity'' then Some (PFloat (Infinity True), drop 9 s)
      else match_number s)"

text \<open>
  After a value of an object or array: the closing bracket, or a comma and the
  whitespace after it. \<open>(True, r)\<close> is closed, \<open>(False, r)\<close> goes on at \<open>r\<close>.
\<close>

definition delimiter :: "char \<Rightarrow> string \<Rightarrow> (bool \<times> string) option" where
  "delimiter close s =
     (case skip_ws s of
        [] \<Rightarrow> None
      | c # cs \<Rightarrow>
          if c = close then Some (True, cs)
          else if c = CHR '','' then Some (False, skip_ws cs)
          else None)"

text \<open>After a key: whitespace, a colon, whitespace.\<close>

definition colon :: "string \<Rightarrow> string option" where
  "colon s =
     (case skip_ws s of
        [] \<Rightarrow> None
      | c # cs \<Rightarrow> if c = CHR '':'' then Some (skip_ws cs) else None)"

lemma length_skip_ws: "length (skip_ws s) \<le> length s"
  by (simp add: skip_ws_def length_dropWhile_le)

lemma colon_shorter: "colon s = Some r \<Longrightarrow> length r < length s"
  using length_skip_ws [of s] length_skip_ws [of "tl (skip_ws s)"]
  by (auto simp: colon_def split: list.splits if_splits)

text \<open>
  \<open>scan_once\<close> reads one value and returns it with the text after it;
  \<open>parse_object\<close> stands at a key and \<open>parse_array\<close> at an element, each with the
  items read so far. A key that comes again replaces the value of the first, as
  storing into a \<open>dict\<close> does. The test that the text has become shorter before going
  on to the next item is there for the termination proof only: \<open>scan_shorter\<close>
  shows that it never fails.
\<close>

function scan_once :: "string \<Rightarrow> (pyval \<times> string) option"
  and parse_object :: "(string \<times> pyval) list \<Rightarrow> string \<Rightarrow> (pyval \<times> string) option"
  and parse_array :: "pyval list \<Rightarrow> string \<Rightarrow> (pyval \<times> string) option"
where
  "scan_once [] = None"
| "scan_once (c # cs) =
     (if c = CHR 0x22 then
        (case scanstring [] cs of None \<Rightarrow> None | Some p \<Rightarrow> Some (PStr (fst p), snd p))
      else if c = CHR ''{'' then
        (if startswith (skip_ws cs) ''}'' then Some (PDict [], tl (skip_ws cs))
         else parse_object [] (skip_ws cs))
      else if c = CHR ''['' then
        (if startswith (skip_ws cs) '']'' then Some (PList [], tl (skip_ws cs))
         else parse_array [] (skip_ws cs))
      else scan_atom (c # cs))"
| "parse_object acc [] = None"
| "parse_object acc (c # cs) =
     (if c \<noteq> CHR 0x22 then None
      else
        (case scanstring [] cs of
           None \<Rightarrow> None
         | Some k \<Rightarrow>
             (case colon (snd k) of
                None \<Rightarrow> None
              | Some r \<Rightarrow>
                  (case scan_once r of
                     None \<Rightarrow> None
                   | Some v \<Rightarrow>
                       (case delimiter (CHR ''}'') (snd v) of
                          None \<Rightarrow> None
                        | Some d \<Rightarrow>
                            if fst d then Some (PDict (AList.update (fst k) (fst v) acc), snd d)
                            else if length (snd d) < length (c # cs)
                            then parse_object (AList.update (fst k) (fst v) acc) (snd d)
                            else None)))))"
| "parse_array acc s =
     (case scan_once s of
        None \<Rightarrow> None
      | Some v \<Rightarrow>
          (case delimiter (CHR '']'') (snd v) of
             None \<Rightarrow> None
           | Some d \<Rightarrow>
               if fst d then Some (PList (acc @ [fst v]), snd d)
               else if length (snd d) < length s
               then parse_array (acc @ [fst v]) (snd d)
               else None))"
  by pat_completeness auto
termination
proof (relation "measure (\<lambda>x. case x of
          Inl s \<Rightarrow> 2 * length s
        | Inr (Inl (acc, s)) \<Rightarrow> 2 * length s + 1
        | Inr (Inr (acc, s)) \<Rightarrow> 2 * length s + 1)", goal_cases)
  case 1
  then show ?case by simp
next
  case (2 c cs)
  then show ?case using length_skip_ws [of cs] by simp
next
  case (3 c cs)
  then show ?case using length_skip_ws [of cs] by simp
next
  case (4 acc c cs k r)
  then show ?case
    using scanstring_shorter [of "[]" cs k] colon_shorter [of "snd k" r] by simp
next
  case (5 acc c cs k r v d)
  then show ?case by simp
next
  case (6 acc s)
  then show ?case by simp
next
  case (7 acc s v d)
  then show ?case by simp
qed

text \<open>
  \<open>json.loads\<close>: whitespace, one value, whitespace, and nothing more. \<open>None\<close> is
  \<open>JSONDecodeError\<close>.
\<close>

definition json_loads :: "string \<Rightarrow> pyval option" where
  "json_loads s =
     (case scan_once (skip_ws s) of
        None \<Rightarrow> None
      | Some v \<Rightarrow> if skip_ws (snd v) = [] then Some (fst v) else None)"

lemma startswith_length: "startswith s p \<Longrightarrow> length p \<le> length s"
  by (induction s p rule: startswith.induct) auto

lemma int_part_shorter: "int_part s = Some p \<Longrightarrow> length (snd p) < length s"
  using length_dropWhile_le [of is_digit "tl s"]
  by (auto simp: int_part_def split: list.splits if_splits)

lemma frac_part_le: "length (snd (frac_part s)) \<le> length s"
  using length_dropWhile_le [of is_digit "tl (tl s)"]
  by (auto simp: frac_part_def split: list.splits if_splits)

lemma exp_sign_le: "length (snd (exp_sign s)) \<le> length s"
  by (auto simp: exp_sign_def split: list.splits)

lemma exp_part_le: "length (snd (exp_part s)) \<le> length s"
  using length_dropWhile_le [of is_digit "snd (exp_sign (tl s))"] exp_sign_le [of "tl s"]
  by (auto simp: exp_part_def Let_def split: list.splits if_splits)

lemma match_number_shorter: "match_number s = Some p \<Longrightarrow> length (snd p) < length s"
proof -
  assume a: "match_number s = Some p"
  define s1 where "s1 = (if startswith s ''-'' then tl s else s)"
  obtain q where q: "int_part s1 = Some q"
    using a by (auto simp: match_number_def Let_def s1_def split: option.splits)
  have r: "snd p = snd (exp_part (snd (frac_part (snd q))))"
    using a q by (auto simp: match_number_def Let_def s1_def split: option.splits prod.splits if_splits)
  have "length (snd p) \<le> length (snd q)"
    unfolding r using exp_part_le [of "snd (frac_part (snd q))"] frac_part_le [of "snd q"]
    by simp
  moreover have "length (snd q) < length s1" using int_part_shorter [OF q] .
  moreover have "length s1 \<le> length s" by (simp add: s1_def)
  ultimately show ?thesis by simp
qed

lemma scan_atom_shorter: "scan_atom s = Some p \<Longrightarrow> length (snd p) < length s"
  by (auto simp: scan_atom_def split: if_splits dest!: startswith_length match_number_shorter)

lemma delimiter_shorter: "delimiter c s = Some d \<Longrightarrow> length (snd d) < length s"
  using length_skip_ws [of s] length_skip_ws [of "tl (skip_ws s)"]
  by (auto simp: delimiter_def split: list.splits if_splits)

lemma scan_shorter:
  "scan_once s = Some p \<Longrightarrow> length (snd p) < length s"
  "parse_object acc s' = Some p' \<Longrightarrow> length (snd p') < length s'"
  "parse_array acc' s'' = Some p'' \<Longrightarrow> length (snd p'') < length s''"
proof (induction s and acc s' and acc' s'' arbitrary: p and p' and p''
       rule: scan_once_parse_object_parse_array.induct)
  case 1
  then show ?case by simp
next
  case (2 c cs)
  show ?case
  proof (cases "c = CHR 0x22")
    case True
    then show ?thesis
      using 2(3) by (auto split: option.splits dest!: scanstring_shorter)
  next
    case nq: False
    show ?thesis
    proof (cases "c = CHR ''{''")
      case ob: True
      show ?thesis
      proof (cases "startswith (skip_ws cs) ''}''")
        case True
        then show ?thesis
          using 2(3) nq ob length_skip_ws [of cs] by auto
      next
        case False
        then have "parse_object [] (skip_ws cs) = Some p" using 2(3) nq ob by simp
        from 2(1) [OF nq ob False this] length_skip_ws [of cs] show ?thesis by simp
      qed
    next
      case nob: False
      show ?thesis
      proof (cases "c = CHR ''[''")
        case ar: True
        show ?thesis
        proof (cases "startswith (skip_ws cs) '']''")
          case True
          then show ?thesis
            using 2(3) nq nob ar length_skip_ws [of cs] by auto
        next
          case False
          then have "parse_array [] (skip_ws cs) = Some p" using 2(3) nq nob ar by simp
          from 2(2) [OF nq nob ar False this] length_skip_ws [of cs] show ?thesis by simp
        qed
      next
        case False
        then show ?thesis
          using 2(3) nq nob scan_atom_shorter [of "c # cs" p] by simp
      qed
    qed
  qed
next
  case (3 acc)
  then show ?case by simp
next
  case (4 acc c cs)
  from 4(3) have q: "c = CHR 0x22" by (auto split: if_splits)
  from 4(3) q obtain k where k: "scanstring [] cs = Some k"
    by (auto split: option.splits)
  from 4(3) q k obtain r where r: "colon (snd k) = Some r"
    by (auto split: option.splits)
  from 4(3) q k r obtain v where v: "scan_once r = Some v"
    by (auto split: option.splits)
  from 4(3) q k r v obtain d where d: "delimiter (CHR ''}'') (snd v) = Some d"
    by (auto split: option.splits)
  have "length (snd d) < length (snd v)" using delimiter_shorter [OF d] .
  moreover have "length (snd v) < length r" using 4(1) q k r v by simp
  moreover have "length r < length (snd k)" using colon_shorter [OF r] .
  moreover have "length (snd k) < length cs" using scanstring_shorter [OF k] .
  ultimately have dl: "length (snd d) < length (c # cs)" by simp
  show ?case
  proof (cases "fst d")
    case True
    then show ?thesis using 4(3) q k r v d dl by auto
  next
    case False
    then have "parse_object (AList.update (fst k) (fst v) acc) (snd d) = Some p'"
      using 4(3) q k r v d dl by simp
    from 4(2) [OF _ k r v d False dl this] q dl show ?thesis by simp
  qed
next
  case (5 acc s)
  from 5(3) obtain v where v: "scan_once s = Some v"
    by (auto split: option.splits)
  from 5(3) v obtain d where d: "delimiter (CHR '']'') (snd v) = Some d"
    by (auto split: option.splits)
  have "length (snd d) < length (snd v)" using delimiter_shorter [OF d] .
  moreover have "length (snd v) < length s" using 5(1) v by simp
  ultimately have dl: "length (snd d) < length s" by simp
  show ?case
  proof (cases "fst d")
    case True
    then show ?thesis using 5(3) v d dl by auto
  next
    case False
    then have "parse_array (acc @ [fst v]) (snd d) = Some p''"
      using 5(3) v d dl by simp
    from 5(2) [OF v d False dl this] dl show ?thesis by simp
  qed
qed

text \<open>The two loops without the test.\<close>

lemma parse_object_next:
  "scanstring [] cs = Some k \<Longrightarrow> colon (snd k) = Some r \<Longrightarrow> scan_once r = Some v \<Longrightarrow>
   delimiter (CHR ''}'') (snd v) = Some d \<Longrightarrow> \<not> fst d \<Longrightarrow>
   parse_object acc (CHR 0x22 # cs) = parse_object (AList.update (fst k) (fst v) acc) (snd d)"
  using delimiter_shorter [of "CHR ''}''" "snd v" d] scan_shorter(1) [of r v]
        colon_shorter [of "snd k" r] scanstring_shorter [of "[]" cs k]
  by simp

lemma parse_array_next:
  "scan_once s = Some v \<Longrightarrow> delimiter (CHR '']'') (snd v) = Some d \<Longrightarrow> \<not> fst d \<Longrightarrow>
   parse_array acc s = parse_array (acc @ [fst v]) (snd d)"
  using delimiter_shorter [of "CHR '']''" "snd v" d] scan_shorter(1) [of s v]
  by simp

lemmas json_defs = json_loads_def skip_ws_def is_json_ws_def colon_def delimiter_def
  scan_atom_def match_number_def int_part_def frac_part_def exp_part_def exp_sign_def
  is_digit_def digits_val_def digit_val_def scan_escape_def simple_escape_def

section \<open>Python values at work\<close>

text \<open>
  \<open>bool(v)\<close>. A float is false when it is zero: a written decimal becomes \<open>0.0\<close> when
  it is at most \<open>2 ^ - 1075\<close>, half of the least positive double, in size.
\<close>

fun float_is_zero :: "pyfloat \<Rightarrow> bool" where
  "float_is_zero (Finite neg m e) =
     (m = 0 \<or> (e < 0 \<and> m * 2 ^ 1075 \<le> 10 ^ nat (- e)))"
| "float_is_zero f = False"

fun truthy :: "pyval \<Rightarrow> bool" where
  "truthy PNone = False"
| "truthy (PBool b) = b"
| "truthy (PInt i) = (i \<noteq> 0)"
| "truthy (PFloat f) = (\<not> float_is_zero f)"
| "truthy (PStr s) = (s \<noteq> [])"
| "truthy (PList xs) = (xs \<noteq> [])"
| "truthy (PDict kvs) = (kvs \<noteq> [])"

text \<open>\<open>d.get(key, default)\<close>; \<open>d.get(key)\<close> is \<open>dict_get d key PNone\<close>.\<close>

definition dict_get :: "(string \<times> pyval) list \<Rightarrow> string \<Rightarrow> pyval \<Rightarrow> pyval" where
  "dict_get d key dflt = (case map_of d key of Some v \<Rightarrow> v | None \<Rightarrow> dflt)"

fun type_name :: "pyval \<Rightarrow> string" where
  "type_name PNone = ''NoneType''"
| "type_name (PBool b) = ''bool''"
| "type_name (PInt i) = ''int''"
| "type_name (PFloat f) = ''float''"
| "type_name (PStr s) = ''str''"
| "type_name (PList xs) = ''list''"
| "type_name (PDict kvs) = ''dict''"

text \<open>
  \<open>str(v)\<close>. For a float, a list and a dict it is \<open>repr(v)\<close>, which the model takes as
  the parameter \<open>repr\<close>.
\<close>

fun py_str :: "(pyval \<Rightarrow> string) \<Rightarrow> pyval \<Rightarrow> string" where
  "py_str repr PNone = ''None''"
| "py_str repr (PBool b) = (if b then ''True'' else ''False'')"
| "py_str repr (PInt i) = show_int i"
| "py_str repr (PStr s) = s"
| "py_str repr v = repr v"

section \<open>Exceptions, effects and results\<close>

text \<open>
  The exceptions the four modules can meet. \<open>MySQLError\<close> is \<open>mysql.connector.Error\<close>
  (any subclass), \<open>OtherException\<close> any other subclass of \<open>Exception\<close>; each carries
  \<open>str(e)\<close>. \<open>KeyboardInterrupt\<close> is the one \<open>BaseException\<close> that is not an
  \<open>Exception\<close>: \<open>except Exception\<close> lets it pass.
\<close>

datatype exn =
    MySQLError string
  | JSONDecodeError
  | AttributeError string
  | KeyError string
  | IndexError string
  | EOFError string
  | UnboundLocalError string
  | OtherException string
  | KeyboardInterrupt

fun is_Exception :: "exn \<Rightarrow> bool" where
  "is_Exception KeyboardInterrupt = False"
| "is_Exception e = True"

text \<open>
  \<open>str(e)\<close>. The text of a decode error holds the position of the fault; the model does
  not compute it, and no handler of the repository shows it to the user.
\<close>

fun exn_str :: "exn \<Rightarrow> string" where
  "exn_str (MySQLError m) = m"
| "exn_str (AttributeError m) = m"
| "exn_str (KeyError m) = m"
| "exn_str (IndexError m) = m"
| "exn_str (EOFError m) = m"
| "exn_str (UnboundLocalError m) = m"
| "exn_str (OtherException m) = m"
| "exn_str KeyboardInterrupt = []"

text \<open>Calling a method the value does not have.\<close>

definition no_attribute :: "pyval \<Rightarrow> string \<Rightarrow> exn" where
  "no_attribute v name =
     AttributeError (apostrophe @ type_name v @ apostrophe @ '' object has no attribute ''
                     @ apostrophe @ name @ apostrophe)"

text \<open>
  A value of a result row. The agent only ever formats such a value, so a value of
  a type other than \<open>None\<close>, \<open>int\<close> and \<open>str\<close> is carried as the text \<open>str\<close>
  gives for it.
\<close>

datatype db_value = DbNull | DbInt int | DbText string | DbOther string

type_synonym row = "(string \<times> db_value) list"

text \<open>What a call does to the world outside, in the order it happens.\<close>

datatype event =
    Connect
  | Cursor
  | Execute pyval "string list"
  | FetchAll
  | Commit
  | Close
  | Print string
  | Input string
  | Post string
  | LogError exn

text \<open>
  A computation either raises or returns, and leaves a trace of events.
\<close>

type_synonym 'a io = "(exn + 'a) \<times> event list"

definition io_return :: "'a \<Rightarrow> 'a io" where
  "io_return x = (Inr x, [])"

definition io_raise :: "exn \<Rightarrow> 'a io" where
  "io_raise e = (Inl e, [])"

definition io_bind :: "'a io \<Rightarrow> ('a \<Rightarrow> 'b io) \<Rightarrow> 'b io" where
  "io_bind m f =
     (case m of
        (Inl e, t) \<Rightarrow> (Inl e, t)
      | (Inr x, t) \<Rightarrow> (case f x of (r, t') \<Rightarrow> (r, t @ t')))"

text \<open>\<open>try: m except <the exceptions h takes> as e: h e\<close>; \<open>h e = None\<close> lets \<open>e\<close> pass.\<close>

definition io_try :: "'a io \<Rightarrow> (exn \<Rightarrow> 'a io option) \<Rightarrow> 'a io" where
  "io_try m h =
     (case m of
        (Inl e, t) \<Rightarrow> (case h e of None \<Rightarrow> (Inl e, t) | Some (r, t') \<Rightarrow> (r, t @ t'))
      | (Inr x, t) \<Rightarrow> (Inr x, t))"

text \<open>A call into the world: the event happens, and the call raises or returns.\<close>

definition io_call :: "event \<Rightarrow> exn option \<Rightarrow> unit io" where
  "io_call ev outcome = (case outcome of None \<Rightarrow> (Inr (), [ev]) | Some e \<Rightarrow> (Inl e, [ev]))"

definition io_ask :: "event \<Rightarrow> exn + 'a \<Rightarrow> 'a io" where
  "io_ask ev outcome = (outcome, [ev])"

section \<open>The world outside\<close>

text \<open>
  What the driver answers on one connection: each call raises (\<open>Some e\<close>, \<open>Inl e\<close>)
  or succeeds. \<open>'r\<close> is the type of a fetched row. The statement is whatever value
  the caller passes.
\<close>

record 'r driver =
  db_connect :: "exn option"
  db_cursor :: "exn option"
  db_execute :: "pyval \<Rightarrow> string list \<Rightarrow> exn option"
  db_fetchall :: "exn + 'r list"
  db_commit :: "exn option"
  db_rowcount :: int
  db_close :: "exn option"

text \<open>
  What \<open>requests.post\<close> does: it raises (no connection, timeout), or returns a
  response with a status and a body, whatever the status.
\<close>

datatype http_outcome = HttpRaises exn | HttpResponse nat string

text \<open>
  The world of one call: the model endpoint as a function of the prompt, the database,
  what \<open>input()\<close> gives at each prompt (a line, or an exception; at the end of the list
  the input is at its end), and \<open>repr\<close>.
\<close>

record world =
  http_post :: "string \<Rightarrow> http_outcome"
  db :: "row driver"
  stdin :: "(exn + string) list"
  py_repr :: "pyval \<Rightarrow> string"

text \<open>
  \<open>with mysql.connector.connect(...) as conn: body\<close>. When \<open>connect\<close> raises, the body
  and the exit do not run. Otherwise the exit runs after the body, whether it raised or
  returned, and an exception of the exit replaces the body's outcome.
\<close>

definition with_connection :: "'r driver \<Rightarrow> 'a io \<Rightarrow> 'a io" where
  "with_connection d body =
     io_bind (io_call Connect (db_connect d)) (\<lambda>_.
       case body of (r, t) \<Rightarrow>
         (case db_close d of
            Some e \<Rightarrow> (Inl e, t @ [Close])
          | None \<Rightarrow> (r, t @ [Close])))"

section \<open>client.py\<close>

text \<open>The field \<open>struct\<close> is the entry \<open>'structure'\<close> of the source's dict.\<close>

record schema =
  table :: string
  columns :: "string list"
  struct :: string

record agent =
  model :: string
  schema :: schema

subsection \<open>\<open>ask_llm\<close>\<close>

text \<open>
  \<open>response.json().get('response', '').strip()\<close>: each step raises on a value of the
  wrong type.
\<close>

definition response_text :: "string \<Rightarrow> string io" where
  "response_text body =
     (case json_loads body of
        None \<Rightarrow> io_raise JSONDecodeError
      | Some (PDict d) \<Rightarrow>
          (case dict_get d ''response'' (PStr []) of
             PStr s \<Rightarrow> io_return (py_strip s)
           | v \<Rightarrow> io_raise (no_attribute v ''strip''))
      | Some v \<Rightarrow> io_raise (no_attribute v ''get''))"

definition post_prompt :: "world \<Rightarrow> string \<Rightarrow> string io" where
  "post_prompt w prompt =
     (case http_post w prompt of
        HttpRaises e \<Rightarrow> (Inl e, [Post prompt])
      | HttpResponse status body \<Rightarrow> (Inr body, [Post prompt]))"

definition on_llm_failure :: "exn \<Rightarrow> string io option" where
  "on_llm_failure e =
     (if is_Exception e then Some (io_bind (io_call (LogError e) None) (\<lambda>_. io_return []))
      else None)"

definition ask_llm :: "world \<Rightarrow> string \<Rightarrow> string io" where
  "ask_llm w prompt =
     io_try (io_bind (post_prompt w prompt) response_text) on_llm_failure"

subsection \<open>\<open>execute_sql\<close>\<close>

datatype exec_result = Select "row list" | Modify int | Error string

text \<open>\<open>params or ()\<close>.\<close>

fun params_or_empty :: "string list option \<Rightarrow> string list" where
  "params_or_empty None = []"
| "params_or_empty (Some ps) = ps"

abbreviation is_select :: "string \<Rightarrow> bool" where
  "is_select sql \<equiv> startswith (py_upper (py_strip sql)) ''SELECT''"

text \<open>
  The test \<open>sql.strip().upper().startswith('SELECT')\<close> comes after \<open>cursor.execute\<close>;
  on a statement that is not a string it raises.
\<close>

definition read_or_write :: "row driver \<Rightarrow> pyval \<Rightarrow> exec_result io" where
  "read_or_write d sql =
     (case sql of
        PStr s \<Rightarrow>
          if is_select s then
            io_bind (io_ask FetchAll (db_fetchall d)) (\<lambda>rows. io_return (Select rows))
          else
            io_bind (io_call Commit (db_commit d)) (\<lambda>_. io_return (Modify (db_rowcount d)))
      | v \<Rightarrow> io_raise (no_attribute v ''strip''))"

definition execute_sql_body :: "row driver \<Rightarrow> pyval \<Rightarrow> string list option \<Rightarrow> exec_result io" where
  "execute_sql_body d sql params =
     io_bind (io_call Cursor (db_cursor d)) (\<lambda>_.
     io_bind (io_call (Execute sql (params_or_empty params))
                (db_execute d sql (params_or_empty params))) (\<lambda>_.
       read_or_write d sql))"

fun on_mysql_error :: "exn \<Rightarrow> exec_result io option" where
  "on_mysql_error (MySQLError m) = Some (io_return (Error m))"
| "on_mysql_error e = None"

definition execute_sql :: "row driver \<Rightarrow> pyval \<Rightarrow> string list option \<Rightarrow> exec_result io" where
  "execute_sql d sql params =
     io_try (with_connection d (execute_sql_body d sql params)) on_mysql_error"

subsection \<open>\<open>_collect_data_for_insert\<close>\<close>

definition insertable :: "schema \<Rightarrow> string list" where
  "insertable sch = filter (\<lambda>col. col \<noteq> ''id'' \<and> col \<noteq> ''hire_date'') (columns sch)"

text \<open>
  The loop over the fields: \<open>ins\<close> is what \<open>input()\<close> will give, \<open>data\<close> the dict so
  far, in insertion order. \<open>None\<close> is the return from inside the loop on an empty value.
\<close>

fun collect_fields ::
  "string list \<Rightarrow> (exn + string) list \<Rightarrow> (string \<times> string) list \<Rightarrow>
     (string \<times> string) list option io" where
  "collect_fields [] ins data = io_return (Some data)"
| "collect_fields (field # fs) [] data =
     (Inl (EOFError ''EOF when reading a line''), [Input (''Enter '' @ field @ '': '')])"
| "collect_fields (field # fs) (i # ins) data =
     io_bind (io_ask (Input (''Enter '' @ field @ '': '')) i) (\<lambda>line.
       if py_strip line = [] then io_return None
       else collect_fields fs ins (AList.update field (py_strip line) data))"

definition insert_sql :: "(string \<times> string) list \<Rightarrow> string" where
  "insert_sql data =
     ''INSERT INTO employees ('' @ py_join '', '' (map fst data) @ '') VALUES (''
       @ py_join '', '' (replicate (length data) ''%s'') @ '')''"

definition all_fields_required :: string where
  "all_fields_required = cross_mark @ '' All fields are required''"

definition insert_cancelled :: string where
  "insert_cancelled = cross_mark @ '' Insert cancelled''"

definition insert_message :: "(string \<times> string) list \<Rightarrow> exec_result \<Rightarrow> string" where
  "insert_message data result =
     (case result of
        Error m \<Rightarrow> cross_mark @ '' Insert failed: '' @ m
      | _ \<Rightarrow> check_mark @ '' Employee ''
               @ (case map_of data ''name'' of Some n \<Rightarrow> n | None \<Rightarrow> []) @ '' added!'')"

fun on_interrupt :: "exn \<Rightarrow> string io option" where
  "on_interrupt KeyboardInterrupt = Some (io_return insert_cancelled)"
| "on_interrupt e = None"

definition collect_data_for_insert :: "world \<Rightarrow> agent \<Rightarrow> string io" where
  "collect_data_for_insert w ag =
     io_bind (io_call (Print (newline @ memo @ '' Adding new employee:'')) None) (\<lambda>_.
     io_try
       (io_bind (collect_fields (insertable (schema ag)) (stdin w) []) (\<lambda>collected.
          case collected of
            None \<Rightarrow> io_return all_fields_required
          | Some data \<Rightarrow>
              io_bind (execute_sql (db w) (PStr (insert_sql data)) (Some (map snd data)))
                (\<lambda>result. io_return (insert_message data result))))
       on_interrupt)"

subsection \<open>\<open>_format_select_results\<close> and the answer to a write\<close>

fun str_db_value :: "db_value \<Rightarrow> string" where
  "str_db_value DbNull = ''None''"
| "str_db_value (DbInt i) = show_int i"
| "str_db_value (DbText s) = s"
| "str_db_value (DbOther s) = s"

definition row_line :: "row \<Rightarrow> string" where
  "row_line r = py_join '' | '' (map (\<lambda>(k, v). k @ '': '' @ str_db_value v) r)"

text \<open>The loop \<open>for i, row in enumerate(data, 1)\<close>, with the output so far.\<close>

fun format_rows :: "nat \<Rightarrow> row list \<Rightarrow> string \<Rightarrow> string" where
  "format_rows i [] output = output"
| "format_rows i (r # rs) output =
     format_rows (i + 1) rs (output @ show_nat i @ ''. '' @ row_line r @ newline)"

definition no_records_found :: string where
  "no_records_found = clipboard @ '' No records found''"

definition format_select_results :: "row list \<Rightarrow> string" where
  "format_select_results data =
     (if data = [] then no_records_found
      else format_rows 1 data
             (clipboard @ '' Found '' @ show_nat (length data) @ '' record(s):'' @ newline
              @ replicate 50 (CHR ''-'') @ newline))"

definition no_rows_affected :: string where
  "no_rows_affected = warning_sign @ '' No rows affected''"

text \<open>Lines 127 to 135: the answer for each variant of the result.\<close>

fun format_result :: "string \<Rightarrow> exec_result \<Rightarrow> string" where
  "format_result action (Error m) = cross_mark @ '' Database Error: '' @ m"
| "format_result action (Select data) = format_select_results data"
| "format_result action (Modify rows) =
     (if rows \<noteq> 0
      then check_mark @ '' '' @ show_int rows @ '' record(s) '' @ py_lower action @ ''d.''
      else no_rows_affected)"

subsection \<open>\<open>process_user_request\<close>\<close>

definition build_prompt :: "schema \<Rightarrow> string \<Rightarrow> string" where
  "build_prompt sch user_input =
     newline @ ''You are a helpful SQL assistant.'' @ newline
     @ newline @ ''Database Info:'' @ newline
     @ ''- Table: '' @ table sch @ newline
     @ ''- Columns: '' @ py_join '', '' (columns sch) @ newline
     @ ''- Structure: '' @ struct sch @ newline
     @ newline @ ''User Request: \"'' @ user_input @ ''\"'' @ newline
     @ newline @ ''Reply in EXACTLY this JSON format:'' @ newline
     @ ''{'' @ newline
     @ ''  \"action\": \"SELECT|INSERT|UPDATE|DELETE|HELP\",'' @ newline
     @ ''  \"sql\": \"SQL statement or null\",'' @ newline
     @ ''  \"explanation\": \"Brief reasoning\",'' @ newline
     @ ''  \"needs_data\": false'' @ newline
     @ ''}'' @ newline
     @ newline @ ''Rules:'' @ newline
     @ ''- Use ORDER BY id for SELECTs.'' @ newline
     @ ''- Use LIKE '' @ apostrophe @ ''%term%'' @ apostrophe @ '' for searches.'' @ newline
     @ ''- For INSERT, set needs_data = true if values are missing.'' @ newline"

text \<open>
  \<open>llm_response[json_start:json_end]\<close>, from the first \<open>{\<close> to the last \<open>}\<close>.
\<close>

definition extract_span :: "string \<Rightarrow> string" where
  "extract_span llm_response =
     py_slice llm_response (find_char (CHR ''{'') llm_response)
       (rfind_char (CHR ''}'') llm_response + 1)"

text \<open>
  Lines 109 to 113: the decoded object and its action in upper case, or the exception
  raised on the way.
\<close>

definition parse_decision :: "string \<Rightarrow> exn + string \<times> (string \<times> pyval) list" where
  "parse_decision llm_response =
     (case json_loads (extract_span llm_response) of
        None \<Rightarrow> Inl JSONDecodeError
      | Some (PDict result) \<Rightarrow>
          (case dict_get result ''action'' (PStr []) of
             PStr a \<Rightarrow> Inr (py_upper a, result)
           | v \<Rightarrow> Inl (no_attribute v ''upper''))
      | Some v \<Rightarrow> Inl (no_attribute v ''get''))"

definition no_sql_generated :: string where
  "no_sql_generated = cross_mark @ '' No SQL generated''"

definition failed_to_parse :: string where
  "failed_to_parse = cross_mark @ '' Failed to parse LLM response''"

text \<open>Lines 115 to 135.\<close>

definition dispatch :: "world \<Rightarrow> agent \<Rightarrow> string \<Rightarrow> (string \<times> pyval) list \<Rightarrow> string io" where
  "dispatch w ag action result =
     (if action = ''HELP'' then
        io_return (light_bulb @ '' '' @ py_str (py_repr w) (dict_get result ''explanation'' PNone))
      else if truthy (dict_get result ''needs_data'' PNone) then
        collect_data_for_insert w ag
      else if \<not> truthy (dict_get result ''sql'' PNone) then
        io_return no_sql_generated
      else
        io_bind (execute_sql (db w) (dict_get result ''sql'' PNone) None) (\<lambda>db_result.
          io_return (format_result action db_result)))"

fun on_request_error :: "exn \<Rightarrow> string io option" where
  "on_request_error JSONDecodeError = Some (io_return failed_to_parse)"
| "on_request_error KeyboardInterrupt = None"
| "on_request_error e = Some (io_return (cross_mark @ '' Error: '' @ exn_str e))"

definition process_user_request :: "world \<Rightarrow> agent \<Rightarrow> string \<Rightarrow> string io" where
  "process_user_request w ag user_input =
     io_bind (ask_llm w (build_prompt (schema ag) user_input)) (\<lambda>llm_response.
       io_try
         (case parse_decision llm_response of
            Inl e \<Rightarrow> io_raise e
          | Inr (action, result) \<Rightarrow> dispatch w ag action result)
         on_request_error)"

subsection \<open>\<open>test_connections\<close> and the start of \<open>main\<close>\<close>

definition count_query :: string where
  "count_query = ''SELECT COUNT(*) as count FROM employees''"

text \<open>
  Each half of the self-test gives \<open>Some b\<close> when it returns \<open>b\<close> from the function
  and \<open>None\<close> when it goes on.
\<close>

definition database_check :: "exec_result \<Rightarrow> bool option io" where
  "database_check result =
     (case result of
        Select data \<Rightarrow>
          (case data of
             [] \<Rightarrow> io_raise (IndexError ''list index out of range'')
           | r # rs \<Rightarrow>
               (case map_of r ''count'' of
                  None \<Rightarrow> io_raise (KeyError (apostrophe @ ''count'' @ apostrophe))
                | Some v \<Rightarrow>
                    io_bind (io_call (Print (check_mark @ '' Database OK: '' @ str_db_value v
                                              @ '' employees'')) None)
                      (\<lambda>_. io_return None)))
      | Modify n \<Rightarrow>
          io_bind (io_call (Print (cross_mark @ '' Database: error'')) None)
            (\<lambda>_. io_return (Some False))
      | Error m \<Rightarrow>
          io_bind (io_call (Print (cross_mark @ '' Database: '' @ m)) None)
            (\<lambda>_. io_return (Some False)))"

definition on_test_failure :: "string \<Rightarrow> exn \<Rightarrow> bool option io option" where
  "on_test_failure what e =
     (if is_Exception e then
        Some (io_bind (io_call (Print (cross_mark @ what @ exn_str e)) None)
                (\<lambda>_. io_return (Some False)))
      else None)"

definition llm_not_as_expected :: string where
  "llm_not_as_expected = warning_sign @ '' LLM responded, but not as expected''"

definition llm_check :: "agent \<Rightarrow> string \<Rightarrow> bool option io" where
  "llm_check ag test =
     io_bind
       (io_call (Print (if py_contains ''OK'' (py_upper test)
                        then check_mark @ '' LLM OK: '' @ model ag
                        else llm_not_as_expected)) None)
       (\<lambda>_. io_return None)"

definition test_connections :: "world \<Rightarrow> agent \<Rightarrow> bool io" where
  "test_connections w ag =
     io_bind (io_call (Print (magnifier @ '' Testing connections...'')) None) (\<lambda>_.
     io_bind (io_try (io_bind (execute_sql (db w) (PStr count_query) None) database_check)
                (on_test_failure '' DB Test Failed: '')) (\<lambda>returned.
       case returned of
         Some b \<Rightarrow> io_return b
       | None \<Rightarrow>
           io_bind (io_try (io_bind (ask_llm w ''Reply with only OK'') (llm_check ag))
                      (on_test_failure '' LLM Test Failed: '')) (\<lambda>returned.
             case returned of
               Some b \<Rightarrow> io_return b
             | None \<Rightarrow> io_return True)))"

text \<open>
  \<open>main\<close> up to the interactive loop, for an agent whose constructor has returned:
  \<open>True\<close> when the loop is entered, \<open>False\<close> when \<open>main\<close> returns before it.
\<close>

definition main_startup :: "world \<Rightarrow> agent \<Rightarrow> bool io" where
  "main_startup w ag =
     io_bind (io_call (Print (robot @ '' Dynamic MCP Database Agent'')) None) (\<lambda>_.
     io_bind (io_call (Print (replicate 40 (CHR ''=''))) None) (\<lambda>_.
     io_bind (test_connections w ag) (\<lambda>ok.
       if \<not> ok then
         io_bind (io_call (Print (cross_mark @ '' Connection test failed. Check your `.env` and DB.'')) None)
           (\<lambda>_. io_return False)
       else
         io_bind (io_call (Print (newline @ speech_balloon @ '' Ask anything. Type ''
                                   @ apostrophe @ ''quit'' @ apostrophe @ '' to exit.'' @ newline)) None)
           (\<lambda>_. io_return True))))"

section \<open>mysql\_utils.py\<close>

text \<open>
  The driver of \<open>fetch_employees_by_department\<close> returns rows as tuples and is asked
  \<open>is_connected()\<close> twice: after \<open>connect\<close> and in the \<open>finally\<close> block.
\<close>

record mysql_driver = "db_value list driver" +
  db_is_connected :: bool
  db_is_connected_finally :: bool

datatype fetched = Rows "db_value list list" | ErrorText string | ReturnedNone

definition department_query :: string where
  "department_query = ''SELECT id, name, department FROM employees WHERE department = %s''"

text \<open>
  The \<open>try\<close> block with its \<open>except Error\<close>. The first component is the local variable
  \<open>conn\<close> after it: bound only when \<open>connect\<close> returned.
\<close>

fun on_error :: "exn \<Rightarrow> fetched io option" where
  "on_error (MySQLError m) = Some (io_return (ErrorText (''MySQL Error: '' @ m)))"
| "on_error e = None"

definition fetch_try :: "mysql_driver \<Rightarrow> string \<Rightarrow> bool \<times> fetched io" where
  "fetch_try d dept =
     (case db_connect d of
        Some e \<Rightarrow> (False, io_try (Inl e, [Connect]) on_error)
      | None \<Rightarrow>
          (True,
           io_try
             (io_bind (io_call Connect None) (\<lambda>_.
                if db_is_connected d then
                  io_bind (io_call Cursor (db_cursor d)) (\<lambda>_.
                  io_bind (io_call (Execute (PStr department_query) [dept])
                             (db_execute d (PStr department_query) [dept])) (\<lambda>_.
                  io_bind (io_ask FetchAll (db_fetchall d)) (\<lambda>rows. io_return (Rows rows))))
                else io_return ReturnedNone))
             on_error))"

text \<open>
  The \<open>finally\<close> block reads \<open>conn\<close>. An exception raised in it replaces the outcome of
  the \<open>try\<close> block, a pending \<open>return\<close> included.
\<close>

definition unbound_conn :: exn where
  "unbound_conn = UnboundLocalError
     (''cannot access local variable '' @ apostrophe @ ''conn'' @ apostrophe
      @ '' where it is not associated with a value'')"

definition fetch_finally :: "mysql_driver \<Rightarrow> bool \<Rightarrow> unit io" where
  "fetch_finally d conn_bound =
     (if \<not> conn_bound then io_raise unbound_conn
      else if db_is_connected_finally d then io_call Close (db_close d)
      else io_return ())"

definition fetch_employees_by_department :: "mysql_driver \<Rightarrow> string \<Rightarrow> fetched io" where
  "fetch_employees_by_department d dept =
     (case fetch_try d dept of
        (conn_bound, (r, t)) \<Rightarrow>
          (case fetch_finally d conn_bound of
             (Inl e, t') \<Rightarrow> (Inl e, t @ t')
           | (Inr u, t') \<Rightarrow> (r, t @ t')))"

section \<open>Sample worlds\<close>

text \<open>Concrete drivers, endpoints and inputs, used where a property is run on an example.\<close>

definition demo_db :: "row list \<Rightarrow> int \<Rightarrow> row driver" where
  "demo_db rows n = \<lparr>db_connect = None, db_cursor = None, db_execute = (\<lambda>_ _. None),
     db_fetchall = Inr rows, db_commit = None, db_rowcount = n, db_close = None\<rparr>"

definition failing_db :: "exn option \<Rightarrow> exn option \<Rightarrow> row driver" where
  "failing_db on_conn on_exec = \<lparr>db_connect = on_conn, db_cursor = None,
     db_execute = (\<lambda>_ _. on_exec), db_fetchall = Inr [], db_commit = None,
     db_rowcount = 0, db_close = None\<rparr>"

definition unreachable_mysql :: mysql_driver where
  "unreachable_mysql = \<lparr>db_connect = Some (MySQLError ''2003: Can not connect to MySQL server''),
     db_cursor = None, db_execute = (\<lambda>_ _. None), db_fetchall = Inr [], db_commit = None,
     db_rowcount = 0, db_close = None, db_is_connected = True,
     db_is_connected_finally = True\<rparr>"

definition two_rows :: "row list" where
  "two_rows = [[(''id'', DbInt 1), (''name'', DbText ''Ann'')],
               [(''id'', DbInt 12), (''name'', DbNull)]]"

definition demo_agent :: agent where
  "demo_agent = \<lparr>model = ''llama3.2'',
     schema = \<lparr>table = ''employees'',
                columns = [''id'', ''name'', ''department'', ''salary''],
                struct = ''id(int), name(varchar(100)), department(varchar(50)), salary(int)''\<rparr>\<rparr>"


definition status_world :: "nat \<Rightarrow> string \<Rightarrow> world" where
  "status_world status body = \<lparr>http_post = (\<lambda>_. HttpResponse status body),
     db = demo_db [] 1, stdin = [], py_repr = (\<lambda>_. [])\<rparr>"

definition unreachable_world :: "row driver \<Rightarrow> world" where
  "unreachable_world d = \<lparr>http_post = (\<lambda>_. HttpRaises (OtherException ''Connection refused'')),
     db = d, stdin = [], py_repr = (\<lambda>_. [])\<rparr>"

definition counting_db :: "row driver" where
  "counting_db = demo_db [[(''count'', DbInt 7)]] 0"

section \<open>Vocabulary of the properties\<close>




fun is_db_event :: "event \<Rightarrow> bool" where
  "is_db_event (Print s) = False"
| "is_db_event (Input s) = False"
| "is_db_event (Post s) = False"
| "is_db_event (LogError e) = False"
| "is_db_event ev = True"


section \<open>Properties of \<open>execute_sql\<close>\<close>

lemmas io_defs = io_return_def io_raise_def io_bind_def io_try_def io_call_def io_ask_def

lemmas text_defs = py_upper_def py_lower_def py_strip_def py_lstrip_def py_rstrip_def
  py_isspace_def upper_char_def lower_char_def

lemma io_try_mysql:
  "io_try (r, t) on_mysql_error =
     (case r of Inl (MySQLError m) \<Rightarrow> (Inr (Error m), t) | _ \<Rightarrow> (r, t))"
  by (simp add: io_try_def io_return_def split: sum.splits exn.splits)

lemma execute_sql_trace:
  "snd (execute_sql d sql params) = snd (with_connection d (execute_sql_body d sql params))"
  by (cases "with_connection d (execute_sql_body d sql params)")
     (simp add: execute_sql_def io_try_mysql split: sum.splits exn.splits)

lemma execute_sql_never_raises_mysql:
  "fst (execute_sql d sql params) \<noteq> Inl (MySQLError m)"
  by (cases "with_connection d (execute_sql_body d sql params)")
     (simp add: execute_sql_def io_try_mysql split: sum.splits exn.splits)


lemma with_connection_trace:
  "set (snd (with_connection d (r, t))) \<subseteq> {Connect, Close} \<union> set t"
  by (auto simp: with_connection_def io_bind_def io_call_def split: option.splits)







text \<open>
  C5. No call of \<open>execute_sql\<close> raises \<open>mysql.connector.Error\<close>. Whichever call into
  the driver raises it (\<open>connect\<close>, \<open>cursor\<close>, \<open>execute\<close>, \<open>fetchall\<close>,
  \<open>commit\<close> or the closing of the connection), the answer is the Error variant with
  the text of the exception.
\<close>

theorem execute_sql_driver_errors:
  "(\<forall>m'. fst (execute_sql d sql params) \<noteq> Inl (MySQLError m')) \<and>
   (db_connect d = Some (MySQLError m) \<longrightarrow>
      execute_sql d sql params = (Inr (Error m), [Connect])) \<and>
   (db_connect d = None \<and> db_close d = Some (MySQLError m) \<longrightarrow>
      fst (execute_sql d sql params) = Inr (Error m)) \<and>
   (db_connect d = None \<and> db_close d = None \<longrightarrow>
      (db_cursor d = Some (MySQLError m) \<longrightarrow>
         execute_sql d sql params = (Inr (Error m), [Connect, Cursor, Close])) \<and>
      (db_cursor d = None \<and>
       db_execute d sql (params_or_empty params) = Some (MySQLError m) \<longrightarrow>
         execute_sql d sql params =
           (Inr (Error m), [Connect, Cursor, Execute sql (params_or_empty params), Close])) \<and>
      (db_cursor d = None \<and> db_execute d sql (params_or_empty params) = None \<and>
       (\<exists>s. sql = PStr s \<and> is_select s) \<and> db_fetchall d = Inl (MySQLError m) \<longrightarrow>
         execute_sql d sql params =
           (Inr (Error m),
            [Connect, Cursor, Execute sql (params_or_empty params), FetchAll, Close])) \<and>
      (db_cursor d = None \<and> db_execute d sql (params_or_empty params) = None \<and>
       (\<exists>s. sql = PStr s \<and> \<not> is_select s) \<and> db_commit d = Some (MySQLError m) \<longrightarrow>
         execute_sql d sql params =
           (Inr (Error m),
            [Connect, Cursor, Execute sql (params_or_empty params), Commit, Close])))"
proof (intro conjI impI allI)
  show "fst (execute_sql d sql params) \<noteq> Inl (MySQLError m')" for m'
    by (rule execute_sql_never_raises_mysql)
next
  assume "db_connect d = Some (MySQLError m)"
  then show "execute_sql d sql params = (Inr (Error m), [Connect])"
    by (simp add: execute_sql_def with_connection_def io_defs)
next
  assume "db_connect d = None \<and> db_close d = Some (MySQLError m)"
  then show "fst (execute_sql d sql params) = Inr (Error m)"
    by (cases "execute_sql_body d sql params")
       (simp add: execute_sql_def with_connection_def io_defs)
next
  assume "db_connect d = None \<and> db_close d = None" "db_cursor d = Some (MySQLError m)"
  then show "execute_sql d sql params = (Inr (Error m), [Connect, Cursor, Close])"
    by (simp add: execute_sql_def with_connection_def execute_sql_body_def io_defs)
next
  assume "db_connect d = None \<and> db_close d = None"
    "db_cursor d = None \<and> db_execute d sql (params_or_empty params) = Some (MySQLError m)"
  then show "execute_sql d sql params =
      (Inr (Error m), [Connect, Cursor, Execute sql (params_or_empty params), Close])"
    by (simp add: execute_sql_def with_connection_def execute_sql_body_def io_defs)
next
  assume "db_connect d = None \<and> db_close d = None"
    "db_cursor d = None \<and> db_execute d sql (params_or_empty params) = None \<and>
       (\<exists>s. sql = PStr s \<and> is_select s) \<and> db_fetchall d = Inl (MySQLError m)"
  then show "execute_sql d sql params =
      (Inr (Error m), [Connect, Cursor, Execute sql (params_or_empty params), FetchAll, Close])"
    by (auto simp add: execute_sql_def with_connection_def execute_sql_body_def
                       read_or_write_def io_defs)
next
  assume "db_connect d = None \<and> db_close d = None"
    "db_cursor d = None \<and> db_execute d sql (params_or_empty params) = None \<and>
       (\<exists>s. sql = PStr s \<and> \<not> is_select s) \<and> db_commit d = Some (MySQLError m)"
  then show "execute_sql d sql params =
      (Inr (Error m), [Connect, Cursor, Execute sql (params_or_empty params), Commit, Close])"
    by (auto simp add: execute_sql_def with_connection_def execute_sql_body_def
                       read_or_write_def io_defs)
qed

theorem execute_sql_driver_errors_witness:
  "execute_sql (failing_db (Some (MySQLError ''Access denied'')) None) (PStr ''SELECT 1'') None =
     (Inr (Error ''Access denied''), [Connect]) \<and>
   execute_sql (failing_db None (Some (MySQLError ''Unknown column''))) (PStr ''SELECT x'') None =
     (Inr (Error ''Unknown column''), [Connect, Cursor, Execute (PStr ''SELECT x'') [], Close])"
  using execute_sql_driver_errors
          [of "failing_db (Some (MySQLError ''Access denied'')) None" "PStr ''SELECT 1''" None
              "''Access denied''"]
        execute_sql_driver_errors
          [of "failing_db None (Some (MySQLError ''Unknown column''))" "PStr ''SELECT x''" None
              "''Unknown column''"]
  by (simp add: failing_db_def)

section \<open>Properties of the formatter\<close>

lemma format_rows_eq:
  "format_rows i rs out =
     out @ concat (map (\<lambda>(k, r). show_nat k @ ''. '' @ row_line r @ newline)
                       (zip [i..<i + length rs] rs))"
proof (induction rs arbitrary: i out)
  case Nil
  then show ?case by simp
next
  case (Cons r rs)
  have eq: "zip [i..<i + length (r # rs)] (r # rs) = (i, r) # zip [Suc i..<Suc i + length rs] rs"
    by (subst upt_rec) simp
  show ?case
    unfolding eq format_rows.simps Cons.IH by simp
qed

text \<open>
  C7. The answer is a function of the result and the action. A Select with no rows gives
  the fixed text; a Select with rows gives the header with their number and then one
  line for each row, numbered from 1, its columns as \<open>name: value\<close> joined by
  \<open> | \<close>; a Modify with a positive count gives the success text with the count and
  the action in lower case; a Modify with count 0 gives the warning, which no Error
  variant is answered with.
\<close>

theorem format_result_cases:
  "format_result action (Select []) = no_records_found \<and>
   (data \<noteq> [] \<longrightarrow>
      format_result action (Select data) =
        clipboard @ '' Found '' @ show_nat (length data) @ '' record(s):'' @ newline
        @ replicate 50 (CHR ''-'') @ newline
        @ concat (map (\<lambda>(k, r). show_nat k @ ''. ''
                          @ py_join '' | '' (map (\<lambda>(c, v). c @ '': '' @ str_db_value v) r)
                          @ newline)
                      (zip [1..<1 + length data] data))) \<and>
   (0 < rows \<longrightarrow>
      format_result action (Modify rows) =
        check_mark @ '' '' @ show_int rows @ '' record(s) '' @ py_lower action @ ''d.'') \<and>
   format_result action (Modify 0) = no_rows_affected \<and>
   (\<forall>m. format_result action (Error m) \<noteq> no_rows_affected)"
  by (simp add: format_select_results_def format_rows_eq row_line_def no_rows_affected_def
                cross_mark_def warning_sign_def)

theorem format_result_cases_witness:
  "two_rows \<noteq> [] \<and>
   format_result ''SELECT'' (Select two_rows) =
     clipboard @ '' Found 2 record(s):'' @ newline @ replicate 50 (CHR ''-'') @ newline
     @ ''1. id: 1 | name: Ann'' @ newline @ ''2. id: 12 | name: None'' @ newline \<and>
   (0::int) < 3 \<and>
   format_result ''UPDATE'' (Modify 3) = check_mark @ '' 3 record(s) updated.''"
  using format_result_cases [of "''SELECT''" two_rows 3]
        format_result_cases [of "''UPDATE''" two_rows 3]
  by (simp add: two_rows_def show_int_def text_defs)

section \<open>Properties of \<open>fetch_employees_by_department\<close>\<close>

text \<open>
  C9. When \<open>connect\<close> itself raises \<open>mysql.connector.Error\<close>, the \<open>except\<close> clause
  prepares the text \<open>MySQL Error: ...\<close> for return, but \<open>conn\<close> is not bound, the
  \<open>finally\<close> block raises on reading it, and the call raises that exception instead of
  returning the text.
\<close>

theorem fetch_connect_error:
  "db_connect d = Some (MySQLError m) \<longrightarrow>
     fetch_try d dept = (False, (Inr (ErrorText (''MySQL Error: '' @ m)), [Connect])) \<and>
     fetch_employees_by_department d dept = (Inl unbound_conn, [Connect]) \<and>
     fst (fetch_employees_by_department d dept) \<noteq> Inr (ErrorText (''MySQL Error: '' @ m))"
  by (simp add: fetch_employees_by_department_def fetch_try_def fetch_finally_def io_defs)

theorem fetch_connect_error_witness:
  "db_connect unreachable_mysql = Some (MySQLError ''2003: Can not connect to MySQL server'') \<and>
   fetch_employees_by_department unreachable_mysql ''Sales'' = (Inl unbound_conn, [Connect])"
  using fetch_connect_error
          [of unreachable_mysql "''2003: Can not connect to MySQL server''" "''Sales''"]
  by (simp add: unreachable_mysql_def)

section \<open>Properties of \<open>_collect_data_for_insert\<close>\<close>











lemma io_bind_return_trace: "snd (io_bind m (\<lambda>x. io_return (g x))) = snd m"
  by (cases m) (auto simp: io_bind_def io_return_def split: sum.splits)



lemma execute_sql_connects:
  "snd (execute_sql d sql params) \<noteq> [] \<and> hd (snd (execute_sql d sql params)) = Connect"
  by (cases "execute_sql_body d sql params")
     (auto simp: execute_sql_trace with_connection_def io_defs split: option.splits)





section \<open>Properties of the parser of the model's answer\<close>

lemma find_char_ge: "- 1 \<le> find_char c s"
  by (induction s) (auto simp: Let_def)

lemma find_char_absent: "c \<notin> set s \<Longrightarrow> find_char c s = - 1"
  by (induction s) (auto simp: Let_def)

lemma find_char_zero: "find_char c s = 0 \<Longrightarrow> s \<noteq> [] \<and> hd s = c"
  using find_char_ge [of c "tl s"]
  by (cases s) (auto simp: Let_def split: if_splits)

lemma rfind_char_absent: "c \<notin> set s \<Longrightarrow> rfind_char c s = - 1"
  by (simp add: rfind_char_def find_char_absent)

lemma rfind_char_le: "rfind_char c s \<le> int (length s) - 1"
  using find_char_ge [of c "rev s"] by (auto simp: rfind_char_def Let_def)

lemma rfind_char_ge: "- 1 \<le> rfind_char c s"
proof -
  have "find_char c xs < int (length xs)" for xs
    by (induction xs) (auto simp: Let_def)
  from this [of "rev s"] show ?thesis by (auto simp: rfind_char_def Let_def)
qed

lemma rfind_char_last:
  "s \<noteq> [] \<Longrightarrow> rfind_char c s = int (length s) - 1 \<Longrightarrow> last s = c"
proof -
  assume s: "s \<noteq> []" and r: "rfind_char c s = int (length s) - 1"
  have "find_char c (rev s) = 0"
    using r s find_char_ge [of c "rev s"]
    by (auto simp: rfind_char_def Let_def split: if_splits)
  from find_char_zero [OF this] show ?thesis by (simp add: hd_rev)
qed

lemma drop_to_last: "s \<noteq> [] \<Longrightarrow> drop (length s - 1) s = [last s]"
  by (cases s rule: rev_cases) simp_all

text \<open>
  Without an opening brace the slice starts at the last character, and is empty or the
  one closing brace; without a closing brace it ends at index 0, and is empty.
\<close>

lemma extract_span_no_open:
  "CHR ''{'' \<notin> set s \<Longrightarrow> extract_span s = [] \<or> extract_span s = ''}''"
proof (cases "s = []")
  case True
  then show ?thesis by (simp add: extract_span_def py_slice_def)
next
  case False
  assume "CHR ''{'' \<notin> set s"
  then have f: "find_char (CHR ''{'') s = - 1" by (rule find_char_absent)
  have n: "0 < length s" using False by simp
  have a: "slice_index (int (length s)) (- 1) = int (length s) - 1"
    using n by (simp add: slice_index_def)
  let ?j = "rfind_char (CHR ''}'') s + 1"
  have j: "0 \<le> ?j" "?j \<le> int (length s)"
    using rfind_char_ge [of "CHR ''}''" s] rfind_char_le [of "CHR ''}''" s] by simp_all
  then have b: "slice_index (int (length s)) ?j = ?j"
    by (simp add: slice_index_def)
  show ?thesis
  proof (cases "?j = int (length s)")
    case True
    then have l: "last s = CHR ''}''"
      using rfind_char_last [OF False, of "CHR ''}''"] by simp
    have sp: "extract_span s = py_slice s (- 1) (int (length s))"
      using True by (simp add: extract_span_def f)
    have b': "slice_index (int (length s)) (int (length s)) = int (length s)"
      by (simp add: slice_index_def)
    have "nat (int (length s) - 1) = length s - 1" using n by simp
    then have "py_slice s (- 1) (int (length s)) = take 1 (drop (length s - 1) s)"
      by (simp add: py_slice_def a b' Let_def)
    then show ?thesis
      using drop_to_last [OF False] l sp by simp
  next
    case False
    then have "?j - (int (length s) - 1) \<le> 0" using j by simp
    then show ?thesis
      by (simp add: extract_span_def py_slice_def f a b Let_def)
  qed
qed

lemma extract_span_no_close: "CHR ''}'' \<notin> set s \<Longrightarrow> extract_span s = []"
proof -
  assume "CHR ''}'' \<notin> set s"
  then have r: "rfind_char (CHR ''}'') s = - 1" by (rule rfind_char_absent)
  have "0 \<le> slice_index (int (length s)) i" for i
    by (simp add: slice_index_def)
  moreover have "slice_index (int (length s)) 0 = 0"
    by (simp add: slice_index_def)
  ultimately show ?thesis
    by (simp add: extract_span_def py_slice_def r Let_def)
qed

lemma json_loads_empty: "json_loads [] = None"
  by (simp add: json_defs)

lemma json_loads_close: "json_loads ''}'' = None"
  by (simp add: json_defs)

lemma no_attribute_neq: "no_attribute v name \<noteq> JSONDecodeError"
  by (simp add: no_attribute_def)

lemma parse_decision_cases:
  "parse_decision raw =
     (case json_loads (extract_span raw) of
        None \<Rightarrow> Inl JSONDecodeError
      | Some (PDict result) \<Rightarrow>
          (case dict_get result ''action'' (PStr []) of
             PStr a \<Rightarrow> Inr (py_upper a, result)
           | v \<Rightarrow> Inl (no_attribute v ''upper''))
      | Some v \<Rightarrow> Inl (no_attribute v ''get''))"
  by (simp add: parse_decision_def)

text \<open>
  C2, as the code has it. The parse fails with the decode error exactly when the text
  from the first \<open>{\<close> to the last \<open>}\<close> is not valid JSON, which is so whenever the
  answer has no \<open>{\<close> or no \<open>}\<close>. A decoded object without \<open>action\<close> is accepted,
  with the empty action; an action that is a string is put in upper case. In
  \<open>process_user_request\<close> the decode error is answered with the fixed parse-failure
  text.
\<close>

theorem parse_decision_errors:
  "(parse_decision raw = Inl JSONDecodeError \<longleftrightarrow> json_loads (extract_span raw) = None) \<and>
   (CHR ''{'' \<notin> set raw \<or> CHR ''}'' \<notin> set raw \<longrightarrow> parse_decision raw = Inl JSONDecodeError) \<and>
   (json_loads (extract_span raw) = Some (PDict result) \<and> map_of result ''action'' = None \<longrightarrow>
      parse_decision raw = Inr ([], result)) \<and>
   (json_loads (extract_span raw) = Some (PDict result) \<and>
    map_of result ''action'' = Some (PStr a) \<longrightarrow>
      parse_decision raw = Inr (py_upper a, result)) \<and>
   (fst (ask_llm w (build_prompt (schema ag) user_input)) = Inr raw \<and>
    json_loads (extract_span raw) = None \<longrightarrow>
      fst (process_user_request w ag user_input) = Inr failed_to_parse)"
proof (intro conjI impI)
  show "parse_decision raw = Inl JSONDecodeError \<longleftrightarrow> json_loads (extract_span raw) = None"
    by (auto simp: parse_decision_cases no_attribute_neq
             split: option.splits pyval.splits)
next
  assume "CHR ''{'' \<notin> set raw \<or> CHR ''}'' \<notin> set raw"
  then have "extract_span raw = [] \<or> extract_span raw = ''}''"
    using extract_span_no_open [of raw] extract_span_no_close [of raw] by blast
  then have "json_loads (extract_span raw) = None"
    using json_loads_empty json_loads_close by auto
  then show "parse_decision raw = Inl JSONDecodeError"
    by (simp add: parse_decision_cases)
next
  assume "json_loads (extract_span raw) = Some (PDict result) \<and> map_of result ''action'' = None"
  then show "parse_decision raw = Inr ([], result)"
    by (simp add: parse_decision_cases dict_get_def py_upper_def)
next
  assume "json_loads (extract_span raw) = Some (PDict result) \<and>
          map_of result ''action'' = Some (PStr a)"
  then show "parse_decision raw = Inr (py_upper a, result)"
    by (simp add: parse_decision_cases dict_get_def)
next
  assume a: "fst (ask_llm w (build_prompt (schema ag) user_input)) = Inr raw \<and>
             json_loads (extract_span raw) = None"
  obtain t where "ask_llm w (build_prompt (schema ag) user_input) = (Inr raw, t)"
    using a by (cases "ask_llm w (build_prompt (schema ag) user_input)") auto
  then show "fst (process_user_request w ag user_input) = Inr failed_to_parse"
    using a by (simp add: process_user_request_def parse_decision_cases io_defs)
qed

lemma extract_span_demo:
  "extract_span ''Sure: {\"action\": \"help\"} Done.'' = ''{\"action\": \"help\"}''"
  "extract_span ''{}'' = ''{}''"
  by (simp_all add: extract_span_def py_slice_def slice_index_def rfind_char_def)

lemma json_loads_demo:
  "json_loads ''{\"action\": \"help\"}'' = Some (PDict [(''action'', PStr ''help'')])"
  "json_loads ''{}'' = Some (PDict [])"
  by (simp_all add: json_defs)

theorem parse_decision_errors_witness:
  "CHR ''{'' \<notin> set ''I cannot help with that'' \<and>
   parse_decision ''I cannot help with that'' = Inl JSONDecodeError \<and>
   json_loads (extract_span ''{}'') = Some (PDict []) \<and>
   parse_decision ''{}'' = Inr ([], []) \<and>
   json_loads (extract_span ''Sure: {\"action\": \"help\"} Done.'') =
     Some (PDict [(''action'', PStr ''help'')]) \<and>
   parse_decision ''Sure: {\"action\": \"help\"} Done.'' =
     Inr (''HELP'', [(''action'', PStr ''help'')]) \<and>
   fst (process_user_request (status_world 200 ''{\"response\": \"I cannot help with that\"}'')
          demo_agent ''hello'') = Inr failed_to_parse"
proof -
  let ?w = "status_world 200 ''{\"response\": \"I cannot help with that\"}''"
  have ask: "fst (ask_llm ?w (build_prompt (schema demo_agent) ''hello'')) =
               Inr ''I cannot help with that''"
    by (simp add: ask_llm_def post_prompt_def response_text_def status_world_def io_defs
                  json_defs dict_get_def text_defs)
  note t1 = parse_decision_errors
              [of "''I cannot help with that''" "[]" "[]" ?w demo_agent "''hello''"]
  have nb: "CHR ''{'' \<notin> set ''I cannot help with that''" by simp
  have none: "json_loads (extract_span ''I cannot help with that'') = None"
    using t1 nb by blast
  show ?thesis
    using t1 none ask
          parse_decision_errors [of "''{}''" "[]" "[]" ?w demo_agent "''hello''"]
          parse_decision_errors [of "''Sure: {\"action\": \"help\"} Done.''"
                                    "[(''action'', PStr ''help'')]" "''help''"
                                    ?w demo_agent "''hello''"]
    by (simp add: extract_span_demo json_loads_demo text_defs)
qed

text \<open>
  The claim as stated fails: the object \<open>{}\<close> has no \<open>action\<close>, and the parse does
  not fail; the request is answered as one without SQL, not as a parse failure.
\<close>

theorem parse_accepts_missing_action:
  "json_loads (extract_span ''{}'') = Some (PDict []) \<and>
   map_of ([] :: (string \<times> pyval) list) ''action'' = None \<and>
   parse_decision ''{}'' = Inr ([], []) \<and>
   fst (process_user_request (status_world 200 ''{\"response\": \"{}\"}'') demo_agent ''hello'')
     = Inr no_sql_generated \<and>
   no_sql_generated \<noteq> failed_to_parse"
proof -
  let ?w = "status_world 200 ''{\"response\": \"{}\"}''"
  have ask: "ask_llm ?w p = (Inr ''{}'', [Post p])" for p
    by (simp add: ask_llm_def post_prompt_def response_text_def status_world_def io_defs
                  json_defs dict_get_def text_defs)
  have p: "parse_decision ''{}'' = Inr ([], [])"
    by (simp add: parse_decision_cases extract_span_demo json_loads_demo dict_get_def
                  py_upper_def)
  have "fst (process_user_request ?w demo_agent ''hello'') = Inr no_sql_generated"
    by (simp add: process_user_request_def ask p dispatch_def dict_get_def io_defs)
  then show ?thesis
    using p by (simp add: extract_span_demo json_loads_demo no_sql_generated_def
                          failed_to_parse_def)
qed

section \<open>Properties of the dispatcher\<close>

text \<open>
  C4, as the code has it. The checks come in this order, and each ends the request: the
  action \<open>HELP\<close> answers with the explanation and touches nothing; otherwise a
  \<open>needs_data\<close> that counts as true runs the collector, whatever \<open>sql\<close> is;
  otherwise an \<open>sql\<close> that counts as true is handed to \<open>execute_sql\<close> and its
  result is formatted; otherwise (\<open>sql\<close> missing, null, or empty) the answer is the
  fixed text, and nothing is executed.
\<close>

theorem dispatch_order:
  "(action = ''HELP'' \<longrightarrow>
      dispatch w ag action result =
        (Inr (light_bulb @ '' '' @ py_str (py_repr w) (dict_get result ''explanation'' PNone)),
         [])) \<and>
   (action \<noteq> ''HELP'' \<and> truthy (dict_get result ''needs_data'' PNone) \<longrightarrow>
      dispatch w ag action result = collect_data_for_insert w ag) \<and>
   (action \<noteq> ''HELP'' \<and> \<not> truthy (dict_get result ''needs_data'' PNone) \<and>
    truthy (dict_get result ''sql'' PNone) \<longrightarrow>
      snd (dispatch w ag action result) =
        snd (execute_sql (db w) (dict_get result ''sql'' PNone) None) \<and>
      (\<forall>r. fst (execute_sql (db w) (dict_get result ''sql'' PNone) None) = Inr r \<longrightarrow>
           fst (dispatch w ag action result) = Inr (format_result action r)) \<and>
      (\<forall>e. fst (execute_sql (db w) (dict_get result ''sql'' PNone) None) = Inl e \<longrightarrow>
           fst (dispatch w ag action result) = Inl e)) \<and>
   (action \<noteq> ''HELP'' \<and> \<not> truthy (dict_get result ''needs_data'' PNone) \<and>
    \<not> truthy (dict_get result ''sql'' PNone) \<longrightarrow>
      dispatch w ag action result = (Inr no_sql_generated, []))"
proof (intro conjI impI allI)
  assume "action = ''HELP''"
  then show "dispatch w ag action result =
      (Inr (light_bulb @ '' '' @ py_str (py_repr w) (dict_get result ''explanation'' PNone)), [])"
    by (simp add: dispatch_def io_return_def)
next
  assume "action \<noteq> ''HELP'' \<and> truthy (dict_get result ''needs_data'' PNone)"
  then show "dispatch w ag action result = collect_data_for_insert w ag"
    by (simp add: dispatch_def)
next
  assume a: "action \<noteq> ''HELP'' \<and> \<not> truthy (dict_get result ''needs_data'' PNone) \<and>
             truthy (dict_get result ''sql'' PNone)"
  then have d: "dispatch w ag action result =
      io_bind (execute_sql (db w) (dict_get result ''sql'' PNone) None)
        (\<lambda>db_result. io_return (format_result action db_result))"
    by (simp add: dispatch_def)
  show "snd (dispatch w ag action result) =
      snd (execute_sql (db w) (dict_get result ''sql'' PNone) None)"
    unfolding d by (rule io_bind_return_trace)
  show "fst (dispatch w ag action result) = Inr (format_result action r)"
    if "fst (execute_sql (db w) (dict_get result ''sql'' PNone) None) = Inr r" for r
    using that unfolding d
    by (cases "execute_sql (db w) (dict_get result ''sql'' PNone) None")
       (simp add: io_bind_def io_return_def)
  show "fst (dispatch w ag action result) = Inl e"
    if "fst (execute_sql (db w) (dict_get result ''sql'' PNone) None) = Inl e" for e
    using that unfolding d
    by (cases "execute_sql (db w) (dict_get result ''sql'' PNone) None")
       (simp add: io_bind_def)
next
  assume "action \<noteq> ''HELP'' \<and> \<not> truthy (dict_get result ''needs_data'' PNone) \<and>
          \<not> truthy (dict_get result ''sql'' PNone)"
  then show "dispatch w ag action result = (Inr no_sql_generated, [])"
    by (simp add: dispatch_def io_return_def)
qed

theorem dispatch_order_witness:
  "dispatch (status_world 200 []) demo_agent ''HELP''
     [(''action'', PStr ''help''), (''explanation'', PStr ''Ask about employees''),
      (''sql'', PStr ''DELETE FROM employees'')] =
     (Inr (light_bulb @ '' Ask about employees''), []) \<and>
   (''INSERT'' \<noteq> ''HELP'' \<and> truthy (dict_get [(''needs_data'', PBool True),
        (''sql'', PStr ''INSERT INTO employees VALUES (1)'')] ''needs_data'' PNone)) \<and>
   dispatch (status_world 200 []) demo_agent ''INSERT''
     [(''needs_data'', PBool True), (''sql'', PStr ''INSERT INTO employees VALUES (1)'')] =
     collect_data_for_insert (status_world 200 []) demo_agent \<and>
   truthy (dict_get [(''sql'', PStr ''SELECT * FROM employees'')] ''sql'' PNone) \<and>
   dispatch (status_world 200 []) demo_agent ''SELECT'' [(''sql'', PStr ''SELECT * FROM employees'')] =
     (Inr no_records_found,
      [Connect, Cursor, Execute (PStr ''SELECT * FROM employees'') [], FetchAll, Close]) \<and>
   \<not> truthy (dict_get [(''sql'', PNone)] ''sql'' PNone) \<and>
   dispatch (status_world 200 []) demo_agent ''SELECT'' [(''sql'', PNone)] =
     (Inr no_sql_generated, [])"
proof -
  let ?w = "status_world 200 []"
  let ?q = "PStr ''SELECT * FROM employees''"
  have ex: "execute_sql (db ?w) ?q None =
      (Inr (Select []), [Connect, Cursor, Execute ?q [], FetchAll, Close])"
    by (simp add: execute_sql_def with_connection_def execute_sql_body_def read_or_write_def
                  io_defs status_world_def demo_db_def text_defs)
  have sel: "dispatch ?w demo_agent ''SELECT'' [(''sql'', ?q)] =
      (Inr no_records_found, [Connect, Cursor, Execute ?q [], FetchAll, Close])"
    using dispatch_order [of "''SELECT''" ?w demo_agent "[(''sql'', ?q)]"] ex
    by (simp add: dict_get_def prod_eq_iff format_select_results_def)
  show ?thesis
    using sel
          dispatch_order [of "''HELP''" ?w demo_agent
             "[(''action'', PStr ''help''), (''explanation'', PStr ''Ask about employees''),
               (''sql'', PStr ''DELETE FROM employees'')]"]
          dispatch_order [of "''INSERT''" ?w demo_agent
             "[(''needs_data'', PBool True), (''sql'', PStr ''INSERT INTO employees VALUES (1)'')]"]
          dispatch_order [of "''SELECT''" ?w demo_agent "[(''sql'', PNone)]"]
    by (simp add: dict_get_def)
qed

text \<open>
  The claim as stated fails: in the answer below \<open>sql\<close> is present and is not null,
  only empty, and the request is answered with the fixed text without any call to the
  database.
\<close>

theorem dispatch_empty_sql:
  "parse_decision ''{\"action\": \"SELECT\", \"sql\": \"\", \"needs_data\": false}'' =
     Inr (''SELECT'', [(''action'', PStr ''SELECT''), (''sql'', PStr []),
                       (''needs_data'', PBool False)]) \<and>
   map_of [(''action'', PStr ''SELECT''), (''sql'', PStr []), (''needs_data'', PBool False)] ''sql''
     = Some (PStr []) \<and>
   PStr [] \<noteq> PNone \<and>
   dispatch (status_world 200 []) demo_agent ''SELECT''
     [(''action'', PStr ''SELECT''), (''sql'', PStr []), (''needs_data'', PBool False)] =
     (Inr no_sql_generated, [])"
proof -
  have sp: "extract_span ''{\"action\": \"SELECT\", \"sql\": \"\", \"needs_data\": false}'' =
              ''{\"action\": \"SELECT\", \"sql\": \"\", \"needs_data\": false}''"
    by (simp add: extract_span_def py_slice_def slice_index_def rfind_char_def)
  have js: "json_loads ''{\"action\": \"SELECT\", \"sql\": \"\", \"needs_data\": false}'' =
      Some (PDict [(''action'', PStr ''SELECT''), (''sql'', PStr []),
                   (''needs_data'', PBool False)])"
    by (simp add: json_defs)
  show ?thesis
    by (simp add: parse_decision_cases sp js dict_get_def dispatch_def io_return_def text_defs)
qed

section \<open>Properties of \<open>ask_llm\<close>\<close>

lemma on_llm_failure_eq:
  "on_llm_failure e =
     (if e = KeyboardInterrupt then None else Some (Inr [], [LogError e]))"
  by (cases e) (simp_all add: on_llm_failure_def io_defs)

text \<open>Whatever the endpoint does, \<open>ask_llm\<close> raises nothing but a keyboard interrupt.\<close>

lemma ask_llm_raises_only_interrupt:
  "fst (ask_llm w prompt) = Inl e \<Longrightarrow> e = KeyboardInterrupt"
  by (cases "io_bind (post_prompt w prompt) response_text")
     (auto simp: ask_llm_def io_try_def on_llm_failure_eq split: sum.splits if_splits)

lemma ask_llm_unreachable:
  "http_post w prompt = HttpRaises e \<Longrightarrow> e \<noteq> KeyboardInterrupt \<Longrightarrow>
   ask_llm w prompt = (Inr [], [Post prompt, LogError e])"
  by (simp add: ask_llm_def post_prompt_def io_try_def io_bind_def on_llm_failure_eq)

text \<open>
  C6 does not hold for a status outside 2xx: the status is never looked at, and the
  \<open>response\<close> field of the body is returned. (The sibling \<open>generate_response\<close> of
  main.py calls \<open>raise_for_status\<close> at this place.)
\<close>

theorem ask_llm_ignores_status:
  "ask_llm (status_world 500 ''{\"response\": \"DROP TABLE employees\"}'') ''Reply with only OK'' =
     (Inr ''DROP TABLE employees'', [Post ''Reply with only OK''])"
  by (simp add: ask_llm_def post_prompt_def response_text_def status_world_def io_defs
                json_defs dict_get_def text_defs)

section \<open>Properties of the self-test\<close>

lemma execute_sql_body_events:
  "\<forall>ev \<in> set (snd (execute_sql_body d sql params)). is_db_event ev"
  by (auto simp: execute_sql_body_def read_or_write_def io_defs
           split: option.splits sum.splits pyval.splits if_splits)

lemma execute_sql_events: "\<forall>ev \<in> set (snd (execute_sql d sql params)). is_db_event ev"
proof -
  obtain r t where b: "execute_sql_body d sql params = (r, t)"
    by (cases "execute_sql_body d sql params")
  have "\<forall>ev \<in> set t. is_db_event ev"
    using execute_sql_body_events [of d sql params] b by simp
  then show ?thesis
    using with_connection_trace [of d r t] by (auto simp: execute_sql_trace b)
qed

lemma self_test_db_error:
  "execute_sql (db w) (PStr count_query) None = (Inr (Error m), t) \<Longrightarrow>
   test_connections w ag =
     (Inr False, Print (magnifier @ '' Testing connections...'') # t
                 @ [Print (cross_mark @ '' Database: '' @ m)])"
  by (simp add: test_connections_def database_check_def io_defs)

lemma self_test_db_raises:
  "execute_sql (db w) (PStr count_query) None = (Inl e, t) \<Longrightarrow> is_Exception e \<Longrightarrow>
   test_connections w ag =
     (Inr False, Print (magnifier @ '' Testing connections...'') # t
                 @ [Print (cross_mark @ '' DB Test Failed: '' @ exn_str e)])"
  by (simp add: test_connections_def on_test_failure_def io_defs)

lemma self_test_db_ok:
  "execute_sql (db w) (PStr count_query) None = (Inr (Select (r # rs)), t) \<Longrightarrow>
   map_of r ''count'' = Some v \<Longrightarrow>
   ask_llm w ''Reply with only OK'' = (Inr text, t') \<Longrightarrow>
   test_connections w ag =
     (Inr True, Print (magnifier @ '' Testing connections...'') # t
                @ [Print (check_mark @ '' Database OK: '' @ str_db_value v @ '' employees'')]
                @ t'
                @ [Print (if py_contains ''OK'' (py_upper text)
                          then check_mark @ '' LLM OK: '' @ model ag
                          else llm_not_as_expected)])"
  by (simp add: test_connections_def database_check_def llm_check_def io_defs)

lemma self_test_llm_raises:
  "execute_sql (db w) (PStr count_query) None = (Inr (Select (r # rs)), t) \<Longrightarrow>
   map_of r ''count'' = Some v \<Longrightarrow>
   ask_llm w ''Reply with only OK'' = (Inl e, t') \<Longrightarrow>
   fst (test_connections w ag) = Inl e"
proof -
  assume q: "execute_sql (db w) (PStr count_query) None = (Inr (Select (r # rs)), t)"
    and c: "map_of r ''count'' = Some v"
    and a: "ask_llm w ''Reply with only OK'' = (Inl e, t')"
  have "e = KeyboardInterrupt"
    using ask_llm_raises_only_interrupt [of w "''Reply with only OK''" e] a by simp
  then show ?thesis
    using q c a
    by (simp add: test_connections_def database_check_def on_test_failure_def io_defs)
qed

lemma main_startup_result:
  "fst (test_connections w ag) = Inr b \<Longrightarrow> fst (main_startup w ag) = Inr b"
  by (cases "test_connections w ag") (simp add: main_startup_def io_defs)

text \<open>
  C8. When the count query comes back as the Error variant, or \<open>execute_sql\<close> raises
  an exception of class \<open>Exception\<close>, the self-test returns \<open>False\<close> without asking the model, and \<open>main\<close>
  returns before the loop. When the database answers, a model that cannot be reached, or
  that answers without \<open>OK\<close>, costs a warning only: the self-test returns \<open>True\<close> and
  the loop is entered. With the database answering, the self-test returns anything but
  \<open>True\<close> only when the call of the model itself raises, and then that exception
  leaves the self-test.
\<close>

theorem self_test_outcomes:
  "((\<exists>m. fst (execute_sql (db w) (PStr count_query) None) = Inr (Error m)) \<or>
    (\<exists>e. fst (execute_sql (db w) (PStr count_query) None) = Inl e \<and> is_Exception e) \<longrightarrow>
      fst (test_connections w ag) = Inr False \<and>
      fst (main_startup w ag) = Inr False \<and>
      (\<forall>p. Post p \<notin> set (snd (test_connections w ag)))) \<and>
   (fst (execute_sql (db w) (PStr count_query) None) = Inr (Select (r # rs)) \<and>
    map_of r ''count'' = Some v \<longrightarrow>
      ((\<exists>e. http_post w ''Reply with only OK'' = HttpRaises e \<and> is_Exception e) \<longrightarrow>
         fst (test_connections w ag) = Inr True \<and>
         Print llm_not_as_expected \<in> set (snd (test_connections w ag)) \<and>
         fst (main_startup w ag) = Inr True) \<and>
      (\<forall>answer. fst (ask_llm w ''Reply with only OK'') = Inr answer \<and>
              \<not> py_contains ''OK'' (py_upper answer) \<longrightarrow>
         fst (test_connections w ag) = Inr True \<and>
         Print llm_not_as_expected \<in> set (snd (test_connections w ag)) \<and>
         fst (main_startup w ag) = Inr True) \<and>
      (fst (test_connections w ag) \<noteq> Inr True \<longrightarrow>
         (\<exists>e. fst (ask_llm w ''Reply with only OK'') = Inl e \<and>
              fst (test_connections w ag) = Inl e)))"
proof -
  obtain rq tq where q: "execute_sql (db w) (PStr count_query) None = (rq, tq)"
    by (cases "execute_sql (db w) (PStr count_query) None")
  obtain ra ta where a: "ask_llm w ''Reply with only OK'' = (ra, ta)"
    by (cases "ask_llm w ''Reply with only OK''")
  have tq: "\<forall>ev \<in> set tq. is_db_event ev"
    using execute_sql_events [of "db w" "PStr count_query" None] q by simp
  have db_fail: "fst (test_connections w ag) = Inr False \<and>
      fst (main_startup w ag) = Inr False \<and>
      (\<forall>p. Post p \<notin> set (snd (test_connections w ag)))"
    if "(\<exists>m. rq = Inr (Error m)) \<or> (\<exists>e. rq = Inl e \<and> is_Exception e)"
  proof -
    from that have "\<exists>x. test_connections w ag =
        (Inr False, Print (magnifier @ '' Testing connections...'') # tq @ [Print x])"
      using self_test_db_error [of w _ tq ag] self_test_db_raises [of w _ tq ag] q
      by auto
    then obtain x where tc: "test_connections w ag =
        (Inr False, Print (magnifier @ '' Testing connections...'') # tq @ [Print x])"
      by blast
    have "Post p \<notin> set (snd (test_connections w ag))" for p
      using tq by (auto simp: tc)
    then show ?thesis
      using main_startup_result [of w ag False] by (simp add: tc)
  qed
  have ok: "fst (test_connections w ag) = Inr True \<and>
      Print llm_not_as_expected \<in> set (snd (test_connections w ag)) \<and>
      fst (main_startup w ag) = Inr True"
    if "rq = Inr (Select (r # rs))" "map_of r ''count'' = Some v"
       "ra = Inr answer" "\<not> py_contains ''OK'' (py_upper answer)" for answer
    using self_test_db_ok [of w r rs tq v answer ta ag] q a that
          main_startup_result [of w ag True]
    by simp
  have unreachable: "ra = Inr [] "
    if "http_post w ''Reply with only OK'' = HttpRaises e" "is_Exception e" for e
  proof -
    from that(2) have "e \<noteq> KeyboardInterrupt" by auto
    from ask_llm_unreachable [OF that(1) this] a show ?thesis by simp
  qed
  have no_ok: "\<not> py_contains ''OK'' (py_upper [])"
    by (simp add: py_upper_def)
  have only: "\<exists>e. ra = Inl e \<and> fst (test_connections w ag) = Inl e"
    if "rq = Inr (Select (r # rs))" "map_of r ''count'' = Some v"
       "fst (test_connections w ag) \<noteq> Inr True"
  proof (cases ra)
    case (Inl e)
    then show ?thesis
      using self_test_llm_raises [of w r rs tq v e ta ag] q a that by simp
  next
    case (Inr answer)
    then show ?thesis
      using self_test_db_ok [of w r rs tq v answer ta ag] q a that by simp
  qed
  have A: "(\<exists>m. fst (execute_sql (db w) (PStr count_query) None) = Inr (Error m)) \<or>
      (\<exists>e. fst (execute_sql (db w) (PStr count_query) None) = Inl e \<and> is_Exception e) \<longrightarrow>
        fst (test_connections w ag) = Inr False \<and>
        fst (main_startup w ag) = Inr False \<and>
        (\<forall>p. Post p \<notin> set (snd (test_connections w ag)))"
    using db_fail by (simp add: q)
  have B1: "(\<exists>e. http_post w ''Reply with only OK'' = HttpRaises e \<and> is_Exception e) \<longrightarrow>
         fst (test_connections w ag) = Inr True \<and>
         Print llm_not_as_expected \<in> set (snd (test_connections w ag)) \<and>
         fst (main_startup w ag) = Inr True"
    if "rq = Inr (Select (r # rs))" "map_of r ''count'' = Some v"
    using unreachable ok [OF that, of "[]"] no_ok by blast
  have B2: "\<forall>answer. fst (ask_llm w ''Reply with only OK'') = Inr answer \<and>
              \<not> py_contains ''OK'' (py_upper answer) \<longrightarrow>
         fst (test_connections w ag) = Inr True \<and>
         Print llm_not_as_expected \<in> set (snd (test_connections w ag)) \<and>
         fst (main_startup w ag) = Inr True"
    if "rq = Inr (Select (r # rs))" "map_of r ''count'' = Some v"
    using ok [OF that] by (simp add: a)
  have B3: "fst (test_connections w ag) \<noteq> Inr True \<longrightarrow>
         (\<exists>e. fst (ask_llm w ''Reply with only OK'') = Inl e \<and>
              fst (test_connections w ag) = Inl e)"
    if "rq = Inr (Select (r # rs))" "map_of r ''count'' = Some v"
    using only [OF that] by (simp add: a)
  have B: "fst (execute_sql (db w) (PStr count_query) None) = Inr (Select (r # rs)) \<and>
      map_of r ''count'' = Some v \<longrightarrow>
      ((\<exists>e. http_post w ''Reply with only OK'' = HttpRaises e \<and> is_Exception e) \<longrightarrow>
         fst (test_connections w ag) = Inr True \<and>
         Print llm_not_as_expected \<in> set (snd (test_connections w ag)) \<and>
         fst (main_startup w ag) = Inr True) \<and>
      (\<forall>answer. fst (ask_llm w ''Reply with only OK'') = Inr answer \<and>
              \<not> py_contains ''OK'' (py_upper answer) \<longrightarrow>
         fst (test_connections w ag) = Inr True \<and>
         Print llm_not_as_expected \<in> set (snd (test_connections w ag)) \<and>
         fst (main_startup w ag) = Inr True) \<and>
      (fst (test_connections w ag) \<noteq> Inr True \<longrightarrow>
         (\<exists>e. fst (ask_llm w ''Reply with only OK'') = Inl e \<and>
              fst (test_connections w ag) = Inl e))"
  proof (intro impI)
    assume h: "fst (execute_sql (db w) (PStr count_query) None) = Inr (Select (r # rs)) \<and>
      map_of r ''count'' = Some v"
    then have h1: "rq = Inr (Select (r # rs))" and h2: "map_of r ''count'' = Some v"
      by (simp_all add: q)
    from B1 [OF h1 h2] B2 [OF h1 h2] B3 [OF h1 h2] show
      "((\<exists>e. http_post w ''Reply with only OK'' = HttpRaises e \<and> is_Exception e) \<longrightarrow>
         fst (test_connections w ag) = Inr True \<and>
         Print llm_not_as_expected \<in> set (snd (test_connections w ag)) \<and>
         fst (main_startup w ag) = Inr True) \<and>
      (\<forall>answer. fst (ask_llm w ''Reply with only OK'') = Inr answer \<and>
              \<not> py_contains ''OK'' (py_upper answer) \<longrightarrow>
         fst (test_connections w ag) = Inr True \<and>
         Print llm_not_as_expected \<in> set (snd (test_connections w ag)) \<and>
         fst (main_startup w ag) = Inr True) \<and>
      (fst (test_connections w ag) \<noteq> Inr True \<longrightarrow>
         (\<exists>e. fst (ask_llm w ''Reply with only OK'') = Inl e \<and>
              fst (test_connections w ag) = Inl e))"
      by (intro conjI)
  qed
  from A B show ?thesis by (rule conjI)
qed

theorem self_test_outcomes_witness:
  "fst (execute_sql (db (unreachable_world (failing_db (Some (MySQLError ''Access denied'')) None)))
         (PStr count_query) None) = Inr (Error ''Access denied'') \<and>
   fst (test_connections (unreachable_world (failing_db (Some (MySQLError ''Access denied'')) None))
         demo_agent) = Inr False \<and>
   fst (main_startup (unreachable_world (failing_db (Some (MySQLError ''Access denied'')) None))
         demo_agent) = Inr False \<and>
   fst (execute_sql (db (unreachable_world counting_db)) (PStr count_query) None) =
     Inr (Select [[(''count'', DbInt 7)]]) \<and>
   is_Exception (OtherException ''Connection refused'') \<and>
   fst (test_connections (unreachable_world counting_db) demo_agent) = Inr True \<and>
   Print llm_not_as_expected \<in> set (snd (test_connections (unreachable_world counting_db) demo_agent)) \<and>
   fst (main_startup (unreachable_world counting_db) demo_agent) = Inr True"
proof -
  let ?bad = "unreachable_world (failing_db (Some (MySQLError ''Access denied'')) None)"
  let ?good = "unreachable_world counting_db"
  have q1: "fst (execute_sql (db ?bad) (PStr count_query) None) = Inr (Error ''Access denied'')"
    by (simp add: execute_sql_def with_connection_def io_defs unreachable_world_def
                  failing_db_def)
  have q2: "fst (execute_sql (db ?good) (PStr count_query) None) =
              Inr (Select [[(''count'', DbInt 7)]])"
    by (simp add: execute_sql_def with_connection_def execute_sql_body_def read_or_write_def
                  io_defs unreachable_world_def counting_db_def demo_db_def count_query_def
                  text_defs)
  have p: "http_post ?good ''Reply with only OK'' = HttpRaises (OtherException ''Connection refused'')"
    by (simp add: unreachable_world_def)
  have c: "map_of [(''count'', DbInt 7)] ''count'' = Some (DbInt 7)" by simp
  from self_test_outcomes [where w = ?bad and ag = demo_agent] q1
  have bad: "fst (test_connections ?bad demo_agent) = Inr False \<and>
             fst (main_startup ?bad demo_agent) = Inr False"
    by blast
  have ie: "is_Exception (OtherException ''Connection refused'')" by simp
  from self_test_outcomes [where w = ?good and ag = demo_agent and r = "[(''count'', DbInt 7)]"
                             and rs = "[]" and v = "DbInt 7"] q2 c p ie
  have good: "fst (test_connections ?good demo_agent) = Inr True \<and>
      Print llm_not_as_expected \<in> set (snd (test_connections ?good demo_agent)) \<and>
      fst (main_startup ?good demo_agent) = Inr True"
    by blast
  show ?thesis using q1 q2 bad good by simp
qed

end
